theory Spec2Isabelle
  imports Complex_Main
begin

section \<open>Python values\<close>

text \<open>
  The programs exchange Python dictionaries whose values are floats, strings, lists,
  nested dictionaries or \<open>None\<close>. A dictionary is an association list with string keys
  (\<open>map_of\<close> is the lookup). A finite Python \<open>float\<close> is a \<open>real\<close>; infinities and NaN
  are not part of the model. The arithmetic of \<open>fuse\<close> is first taken exactly and then, in
  the section on double precision, with the rounding of the machine. A Python \<open>str\<close> is the
  \<open>string\<close> of its UTF-8 bytes.
\<close>

datatype pyval =
    PNone
  | PFloat real
  | PStr string
  | PList "pyval list"
  | PDict "(string \<times> pyval) list"

type_synonym pydict = "(string \<times> pyval) list"

text \<open>
  The exceptions of the model, all of them subclasses of Python's \<open>Exception\<close>.
  \<open>ClassifierError\<close> stands for any failure of the sentiment pipeline and
  \<open>OperationalError\<close> for any failure of the database.
\<close>

datatype py_error =
  TypeError | ValueError | KeyError | IndexError | ClassifierError | OperationalError
  | UnicodeEncodeError

text \<open>\<^verbatim>\<open>d.get(k, default)\<close>\<close>

definition dict_get :: "pydict \<Rightarrow> string \<Rightarrow> pyval \<Rightarrow> pyval" where
  "dict_get d k dflt = (case map_of d k of None \<Rightarrow> dflt | Some v \<Rightarrow> v)"

text \<open>
  An arithmetic operand: \<^verbatim>\<open>0.8 * v\<close>, \<^verbatim>\<open>base * v\<close>, \<^verbatim>\<open>1 - v\<close> and \<^verbatim>\<open>v < 0.1\<close> with a float
  on the other side raise \<open>TypeError\<close> unless \<open>v\<close> is a number.
\<close>

fun operand :: "pyval \<Rightarrow> py_error + real" where
  "operand (PFloat x) = Inr x"
| "operand v = Inl TypeError"

section \<open>fusion.py\<close>

definition EMOTION_TO_SCORE :: "(string \<times> real) list" where
  "EMOTION_TO_SCORE =
     [(''angry'', 0.1),
      (''disgust'', 0.1),
      (''fear'', 0.15),
      (''sad'', 0.2),
      (''sadness'', 0.2),
      (''surprise'', 0.6),
      (''happy'', 0.9),
      (''neutral'', 0.5),
      (''no_face_detected'', 0.5)]"

text \<open>
  \<^verbatim>\<open>EMOTION_TO_SCORE.get(dominant_emotion, 0.5)\<close>: a list or a dictionary is unhashable
  (\<open>TypeError\<close>); \<open>None\<close> and floats are hashable and are not keys of the table.
\<close>

fun emotion_base :: "pyval \<Rightarrow> py_error + real" where
  "emotion_base (PStr s) = Inr (case map_of EMOTION_TO_SCORE s of None \<Rightarrow> 0.5 | Some b \<Rightarrow> b)"
| "emotion_base (PList xs) = Inl TypeError"
| "emotion_base (PDict d) = Inl TypeError"
| "emotion_base v = Inr 0.5"

definition map_face_emotion_score :: "pyval \<Rightarrow> pyval \<Rightarrow> py_error + real" where
  "map_face_emotion_score dominant_emotion confidence =
     (case emotion_base dominant_emotion of
        Inl e \<Rightarrow> Inl e
      | Inr base \<Rightarrow>
          (case operand confidence of
             Inl e \<Rightarrow> Inl e
           | Inr c \<Rightarrow> Inr (base * c + 0.5 * (1 - c))))"

text \<open>The local variables of \<open>fuse\<close> when it reaches its \<^verbatim>\<open>return\<close>.\<close>

record fuse_vars =
  text_val :: real
  text_mot :: real
  text_comp :: real
  face_comp :: real
  face_conf :: real
  w_text :: real
  w_face :: real
  mood :: real
  category :: string

text \<open>
  Lines 59 to 67, the face component. \<^verbatim>\<open>not face_analysis\<close> holds for \<open>None\<close> and for
  the empty dictionary.
\<close>

definition face_part :: "pydict option \<Rightarrow> py_error + real \<times> real" where
  "face_part face_analysis =
     (case face_analysis of
        None \<Rightarrow> Inr (0.5, 0.0)
      | Some fa \<Rightarrow>
          if fa = [] \<or> dict_get fa ''dominant_emotion'' PNone = PStr ''no_face_detected''
          then Inr (0.5, 0.0)
          else
            (let dominant = dict_get fa ''dominant_emotion'' (PStr ''neutral'');
                 conf = dict_get fa ''score'' (PFloat 0.0)
             in case map_face_emotion_score dominant conf of
                  Inl e \<Rightarrow> Inl e
                | Inr fc \<Rightarrow>
                    (case operand conf of
                       Inl e \<Rightarrow> Inl e
                     | Inr c \<Rightarrow> Inr (fc, c))))"

definition bucket :: "real \<Rightarrow> string" where
  "bucket m = (if m < 0.35 then ''low'' else if m < 0.7 then ''medium'' else ''high'')"

definition fuse_steps :: "pydict \<Rightarrow> pydict option \<Rightarrow> real \<times> real \<Rightarrow> py_error + fuse_vars" where
  "fuse_steps text_analysis face_analysis weights =
     (case operand (dict_get text_analysis ''valence'' (PFloat 0.5)) of
        Inl e \<Rightarrow> Inl e
      | Inr tv \<Rightarrow>
     (case operand (dict_get text_analysis ''motivation_score'' (PFloat 0.0)) of
        Inl e \<Rightarrow> Inl e
      | Inr tm \<Rightarrow>
     (case face_part face_analysis of
        Inl e \<Rightarrow> Inl e
      | Inr (fc, fconf) \<Rightarrow>
          (let tc = 0.8 * tv + 0.2 * tm;
               (w_t, w_f) = (if fconf < 0.1 then (0.9, 0.1) else weights);
               m = w_t * tc + w_f * fc
           in Inr \<lparr>text_val = tv, text_mot = tm, text_comp = tc, face_comp = fc,
                    face_conf = fconf, w_text = w_t, w_face = w_f, mood = m,
                    category = bucket m\<rparr>))))"

text \<open>The dictionary that \<open>fuse\<close> returns.\<close>

definition fusion_result :: "fuse_vars \<Rightarrow> pydict" where
  "fusion_result L =
     [(''mood_score'', PFloat (mood L)),
      (''category'', PStr (category L)),
      (''components'',
         PDict [(''text_comp'', PFloat (text_comp L)),
                (''face_comp'', PFloat (face_comp L)),
                (''text_valence'', PFloat (text_val L)),
                (''motivation_score'', PFloat (text_mot L))])]"

definition fuse :: "pydict \<Rightarrow> pydict option \<Rightarrow> real \<times> real \<Rightarrow> py_error + pydict" where
  "fuse text_analysis face_analysis weights =
     (case fuse_steps text_analysis face_analysis weights of
        Inl e \<Rightarrow> Inl e
      | Inr L \<Rightarrow> Inr (fusion_result L))"

section \<open>Signals of the data model\<close>

definition is_float :: "pyval \<Rightarrow> bool" where
  "is_float v = (case v of PFloat x \<Rightarrow> True | _ \<Rightarrow> False)"

definition is_str :: "pyval \<Rightarrow> bool" where
  "is_str v = (case v of PStr s \<Rightarrow> True | _ \<Rightarrow> False)"

definition in_unit :: "pyval \<Rightarrow> bool" where
  "in_unit v = (case v of PFloat x \<Rightarrow> 0 \<le> x \<and> x \<le> 1 | _ \<Rightarrow> False)"

definition spec_base_score :: "string \<Rightarrow> real" where
  "spec_base_score s =
     (if s = ''happy'' then 0.9
      else if s = ''neutral'' then 0.5
      else if s = ''surprise'' then 0.6
      else if s = ''sad'' \<or> s = ''sadness'' then 0.2
      else if s = ''fear'' then 0.15
      else if s = ''angry'' \<or> s = ''disgust'' then 0.1
      else 0.5)"

definition text_signal_ok :: "pydict \<Rightarrow> bool" where
  "text_signal_ok t =
     (in_unit (dict_get t ''valence'' (PFloat 0.5)) \<and>
      in_unit (dict_get t ''motivation_score'' (PFloat 0)))"

definition face_signal_ok :: "pydict option \<Rightarrow> bool" where
  "face_signal_ok f =
     (case f of
        None \<Rightarrow> True
      | Some fa \<Rightarrow>
          is_str (dict_get fa ''dominant_emotion'' (PStr ''neutral'')) \<and>
          in_unit (dict_get fa ''score'' (PFloat 0)))"

definition text_typed :: "pydict \<Rightarrow> bool" where
  "text_typed t =
     (is_float (dict_get t ''valence'' (PFloat 0.5)) \<and>
      is_float (dict_get t ''motivation_score'' (PFloat 0)))"

definition face_typed :: "pydict option \<Rightarrow> bool" where
  "face_typed f =
     (case f of
        None \<Rightarrow> True
      | Some fa \<Rightarrow>
          is_str (dict_get fa ''dominant_emotion'' (PStr ''neutral'')) \<and>
          is_float (dict_get fa ''score'' (PFloat 0)))"

section \<open>Double precision\<close>

text \<open>
  A Python \<open>float\<close> is an IEEE 754 binary64 number. The definitions above compute in exact
  real arithmetic, which is enough for what relates the parts of a result to each other.
  What the digits of a result are is decided by rounding: every literal and every
  arithmetic operation yields the double nearest to the exact value, ties going to the even
  significand. \<open>round_double\<close> is that rounding on the reals: 53 significant bits, the fixed
  spacing \<open>2\<^sup>-\<^sup>1\<^sup>0\<^sup>7\<^sup>4\<close> below \<open>2\<^sup>-\<^sup>1\<^sup>0\<^sup>2\<^sup>2\<close>. Overflow to infinity (from \<open>2\<^sup>1\<^sup>0\<^sup>2\<^sup>4\<close> on) is not
  part of the model.
\<close>

fun bitlen :: "nat \<Rightarrow> nat" where
  "bitlen n = (if n = 0 then 0 else Suc (bitlen (n div 2)))"

declare bitlen.simps [simp del]

text \<open>The exponent \<open>e\<close> of a positive real \<open>x\<close>: \<open>2\<^sup>e \<le> x < 2\<^sup>e\<^sup>+\<^sup>1\<close>.\<close>

definition exponent :: "real \<Rightarrow> int" where
  "exponent x =
     (if 1 \<le> x then int (bitlen (nat \<lfloor>x\<rfloor>)) - 1
      else - int (bitlen (nat (\<lceil>1 / x\<rceil> - 1))))"

definition pow2 :: "int \<Rightarrow> real" where
  "pow2 e = (if 0 \<le> e then 2 ^ nat e else 1 / 2 ^ nat (- e))"

definition round_half_even :: "real \<Rightarrow> int" where
  "round_half_even y =
     (let f = \<lfloor>y\<rfloor>; d = y - of_int f
      in if d < 1 / 2 then f
         else if 1 / 2 < d then f + 1
         else if even f then f else f + 1)"

definition round_positive :: "real \<Rightarrow> real" where
  "round_positive x =
     (let u = pow2 (max (exponent x) (- 1022) - 52)
      in of_int (round_half_even (x / u)) * u)"

definition round_double :: "real \<Rightarrow> real" where
  "round_double x =
     (if x = 0 then 0
      else if x < 0 then - round_positive (- x)
      else round_positive x)"

definition dmul :: "real \<Rightarrow> real \<Rightarrow> real" where
  "dmul a b = round_double (a * b)"

definition dadd :: "real \<Rightarrow> real \<Rightarrow> real" where
  "dadd a b = round_double (a + b)"

definition dsub :: "real \<Rightarrow> real \<Rightarrow> real" where
  "dsub a b = round_double (a - b)"

text \<open>
  \<open>fuse\<close> in double precision: the same steps as \<open>map_face_emotion_score\<close>, \<open>face_part\<close>,
  \<open>fuse_steps\<close> and \<open>fuse\<close>, with every number read as the double nearest to it and every
  operation rounded.
\<close>

definition map_face_emotion_score_double :: "pyval \<Rightarrow> pyval \<Rightarrow> py_error + real" where
  "map_face_emotion_score_double dominant_emotion confidence =
     (case emotion_base dominant_emotion of
        Inl e \<Rightarrow> Inl e
      | Inr base \<Rightarrow>
          (case operand confidence of
             Inl e \<Rightarrow> Inl e
           | Inr c \<Rightarrow>
               Inr (dadd (dmul (round_double base) (round_double c))
                         (dmul (round_double 0.5) (dsub 1 (round_double c))))))"

definition face_part_double :: "pydict option \<Rightarrow> py_error + real \<times> real" where
  "face_part_double face_analysis =
     (case face_analysis of
        None \<Rightarrow> Inr (round_double 0.5, round_double 0.0)
      | Some fa \<Rightarrow>
          if fa = [] \<or> dict_get fa ''dominant_emotion'' PNone = PStr ''no_face_detected''
          then Inr (round_double 0.5, round_double 0.0)
          else
            (let dominant = dict_get fa ''dominant_emotion'' (PStr ''neutral'');
                 conf = dict_get fa ''score'' (PFloat 0.0)
             in case map_face_emotion_score_double dominant conf of
                  Inl e \<Rightarrow> Inl e
                | Inr fc \<Rightarrow>
                    (case operand conf of
                       Inl e \<Rightarrow> Inl e
                     | Inr c \<Rightarrow> Inr (fc, round_double c))))"

definition bucket_double :: "real \<Rightarrow> string" where
  "bucket_double m =
     (if m < round_double 0.35 then ''low''
      else if m < round_double 0.7 then ''medium''
      else ''high'')"

definition fuse_steps_double ::
  "pydict \<Rightarrow> pydict option \<Rightarrow> real \<times> real \<Rightarrow> py_error + fuse_vars" where
  "fuse_steps_double text_analysis face_analysis weights =
     (case operand (dict_get text_analysis ''valence'' (PFloat 0.5)) of
        Inl e \<Rightarrow> Inl e
      | Inr tv \<Rightarrow>
     (case operand (dict_get text_analysis ''motivation_score'' (PFloat 0.0)) of
        Inl e \<Rightarrow> Inl e
      | Inr tm \<Rightarrow>
     (case face_part_double face_analysis of
        Inl e \<Rightarrow> Inl e
      | Inr (fc, fconf) \<Rightarrow>
          (let tc = dadd (dmul (round_double 0.8) (round_double tv))
                         (dmul (round_double 0.2) (round_double tm));
               (w_t, w_f) =
                  (if fconf < round_double 0.1 then (round_double 0.9, round_double 0.1)
                   else (round_double (fst weights), round_double (snd weights)));
               m = dadd (dmul w_t tc) (dmul w_f fc)
           in Inr \<lparr>text_val = round_double tv, text_mot = round_double tm, text_comp = tc,
                    face_comp = fc, face_conf = fconf, w_text = w_t, w_face = w_f, mood = m,
                    category = bucket_double m\<rparr>))))"

definition fuse_double :: "pydict \<Rightarrow> pydict option \<Rightarrow> real \<times> real \<Rightarrow> py_error + pydict" where
  "fuse_double text_analysis face_analysis weights =
     (case fuse_steps_double text_analysis face_analysis weights of
        Inl e \<Rightarrow> Inl e
      | Inr L \<Rightarrow> Inr (fusion_result L))"

section \<open>Characters of a string\<close>

text \<open>
  Python indexes and slices a \<open>str\<close> by characters. In UTF-8 a character is a lead byte
  followed by its continuation bytes (\<open>0x80\<close> to \<open>0xBF\<close>); \<open>utf8_chars\<close> splits a
  string into its characters.
\<close>

definition is_cont :: "char \<Rightarrow> bool" where
  "is_cont c = (128 \<le> (of_char c :: nat) \<and> (of_char c :: nat) < 192)"

function utf8_chars :: "string \<Rightarrow> string list" where
  "utf8_chars [] = []"
| "utf8_chars (c # cs) = (c # takeWhile is_cont cs) # utf8_chars (dropWhile is_cont cs)"
  by pat_completeness auto
termination
  by (relation "measure length") (auto simp: length_dropWhile_le less_Suc_eq_le)

text \<open>\<^verbatim>\<open>s[:n]\<close>\<close>

definition str_prefix :: "nat \<Rightarrow> string \<Rightarrow> string" where
  "str_prefix n s = concat (take n (utf8_chars s))"

section \<open>text_analysis.py\<close>

text \<open>
  \<^verbatim>\<open>re.search(rf"\b{kw}\b", s)\<close> for a non-empty keyword: some occurrence of the keyword in
  \<open>s\<close> has a word boundary on both sides. A boundary lies between two positions of which
  exactly one holds a word character; the positions before the first and after the last
  character hold none. Which characters are word characters (\<^verbatim>\<open>\w\<close>) is the table of the
  \<open>re\<close> module, the parameter \<open>is_word\<close>; the text and the keyword are lists of characters.
\<close>

definition wordness :: "(string \<Rightarrow> bool) \<Rightarrow> string option \<Rightarrow> bool" where
  "wordness is_word c = (case c of None \<Rightarrow> False | Some x \<Rightarrow> is_word x)"

definition boundary :: "(string \<Rightarrow> bool) \<Rightarrow> string option \<Rightarrow> string option \<Rightarrow> bool" where
  "boundary is_word a b = (wordness is_word a \<noteq> wordness is_word b)"

definition match_here ::
  "(string \<Rightarrow> bool) \<Rightarrow> string list \<Rightarrow> string option \<Rightarrow> string list \<Rightarrow> bool" where
  "match_here is_word kw prev rest =
     (kw \<noteq> [] \<and> take (length kw) rest = kw \<and>
      boundary is_word prev (Some (hd kw)) \<and>
      boundary is_word (Some (last kw))
        (case drop (length kw) rest of [] \<Rightarrow> None | c # cs \<Rightarrow> Some c))"

fun search_from ::
  "(string \<Rightarrow> bool) \<Rightarrow> string list \<Rightarrow> string option \<Rightarrow> string list \<Rightarrow> bool" where
  "search_from is_word kw prev [] = False"
| "search_from is_word kw prev (c # cs) =
     (match_here is_word kw prev (c # cs) \<or> search_from is_word kw (Some c) cs)"

definition re_search_word :: "(string \<Rightarrow> bool) \<Rightarrow> string \<Rightarrow> string \<Rightarrow> bool" where
  "re_search_word is_word kw s = search_from is_word (utf8_chars kw) None (utf8_chars s)"

definition motivation_keywords :: "string list" where
  "motivation_keywords =
     [''goal'', ''plan'', ''exercise'', ''workout'', ''study'',
      ''read'', ''practice'', ''build'', ''apply'', ''learn'', ''finish'']"

text \<open>
  \<open>analyze_text\<close>. The sentiment pipeline is the parameter \<open>pipe\<close>: it returns the label and
  the score of the first result, or fails. \<^verbatim>\<open>str.lower\<close> is the parameter \<open>lower\<close>.
\<close>

definition analyze_text ::
  "(string \<Rightarrow> string) \<Rightarrow> (string \<Rightarrow> bool) \<Rightarrow> (string \<Rightarrow> py_error + string \<times> real)
     \<Rightarrow> string \<Rightarrow> py_error + pydict" where
  "analyze_text lower is_word pipe text_in =
     (case pipe (str_prefix 512 text_in) of
        Inl e \<Rightarrow> Inl e
      | Inr (label, score) \<Rightarrow>
          (let text_lower = lower text_in;
               found = filter (\<lambda>kw. re_search_word is_word kw text_lower) motivation_keywords;
               motivation_score =
                 min 1.0 (0.2 * real (length found) + (if label = ''POSITIVE'' then 0.3 else 0.0));
               valence = (if label = ''POSITIVE'' then score else 1 - score)
           in Inr [(''label'', PStr label),
                   (''score'', PFloat score),
                   (''valence'', PFloat valence),
                   (''motivation_score'', PFloat motivation_score),
                   (''keywords'', PList (map PStr found))]))"

text \<open>The two tables on ASCII text, where they are known.\<close>

definition ascii_lower :: "string \<Rightarrow> string" where
  "ascii_lower s =
     map (\<lambda>c. if 65 \<le> (of_char c :: nat) \<and> (of_char c :: nat) \<le> 90
               then char_of ((of_char c :: nat) + 32) else c) s"

definition ascii_word :: "string \<Rightarrow> bool" where
  "ascii_word x =
     (case x of
        [c] \<Rightarrow> (let n = (of_char c :: nat)
                in (48 \<le> n \<and> n \<le> 57) \<or> (65 \<le> n \<and> n \<le> 90) \<or> n = 95 \<or> (97 \<le> n \<and> n \<le> 122))
      | _ \<Rightarrow> False)"

section \<open>feedback_generator.py\<close>

text \<open>The right single quotation mark and the em dash of the templates, in UTF-8.\<close>

definition rsquo :: string where
  "rsquo = [CHR 0xE2, CHR 0x80, CHR 0x99]"

definition mdash :: string where
  "mdash = [CHR 0xE2, CHR 0x80, CHR 0x94]"

definition TEMPLATES :: "(string \<times> string list) list" where
  "TEMPLATES =
     [(''low'',
        [''I'' @ rsquo @ ''m sorry you'' @ rsquo @ ''re having a tough time. Small steps can help ''
           @ mdash @ '' try {micro_action}.'',
         ''That sounds rough. Consider taking a brief break and doing {micro_action} to reset a little.'']),
      (''medium'',
        [''You'' @ [CHR 0x27] @ ''re doing okay. Keep building momentum with {micro_action}.'',
         ''Nice awareness '' @ mdash @ '' try {micro_action} today to stay consistent.'']),
      (''high'',
        [''Great energy! Keep it up '' @ mdash @ '' maybe {micro_action} as a small challenge.'',
         ''You seem in a good mood. Consider {micro_action} to stretch your progress a little.''])]"

definition MICRO_ACTIONS :: "string list" where
  "MICRO_ACTIONS =
     [''a 10-minute walk'',
      ''a short breathing exercise'',
      ''writing one thing you'' @ rsquo @ ''re grateful for'',
      ''a focused 20-minute session on a small task'',
      ''listening to a favorite song'']"

text \<open>
  The random source: one draw for each call of \<^verbatim>\<open>random.choice\<close> and the value of
  \<^verbatim>\<open>random.random()\<close>. \<^verbatim>\<open>random.choice(xs)\<close> with the draw \<open>n\<close> is \<open>xs[n mod len(xs)]\<close>, and
  raises \<open>IndexError\<close> on the empty list.
\<close>

record rand =
  draw_template :: nat
  draw_micro :: nat
  draw_uniform :: real

definition choice :: "'a list \<Rightarrow> nat \<Rightarrow> py_error + 'a" where
  "choice xs n = (if xs = [] then Inl IndexError else Inr (xs ! (n mod length xs)))"

definition pick_micro_action :: "nat \<Rightarrow> py_error + string" where
  "pick_micro_action n = choice MICRO_ACTIONS n"

text \<open>
  \<^verbatim>\<open>TEMPLATES.get(category, TEMPLATES["medium"])\<close>: a list or a dictionary is unhashable,
  every other value that is not a key gives the templates of "medium".
\<close>

definition templates_medium :: "string list" where
  "templates_medium = (case map_of TEMPLATES ''medium'' of None \<Rightarrow> [] | Some ts \<Rightarrow> ts)"

fun templates_for :: "pyval \<Rightarrow> py_error + string list" where
  "templates_for (PStr s) =
     Inr (case map_of TEMPLATES s of None \<Rightarrow> templates_medium | Some ts \<Rightarrow> ts)"
| "templates_for (PList xs) = Inl TypeError"
| "templates_for (PDict d) = Inl TypeError"
| "templates_for v = Inr templates_medium"

text \<open>
  \<^verbatim>\<open>template.format(micro_action=micro)\<close> on a template whose only braces are those of the
  field \<^verbatim>\<open>{micro_action}\<close>: every occurrence of the field is replaced.
\<close>

fun format_template :: "string \<Rightarrow> string \<Rightarrow> string" where
  "format_template [] micro = []"
| "format_template (c # cs) micro =
     (if c = CHR ''{'' \<and> take 13 cs = ''micro_action}''
      then micro @ format_template (drop 13 cs) micro
      else c # format_template cs micro)"

text \<open>Truth value of a Python value, as \<^verbatim>\<open>if v\<close> and \<^verbatim>\<open>v and ...\<close> test it.\<close>

fun truthy :: "pyval \<Rightarrow> bool" where
  "truthy PNone = False"
| "truthy (PFloat x) = (x \<noteq> 0)"
| "truthy (PStr s) = (s \<noteq> [])"
| "truthy (PList xs) = (xs \<noteq> [])"
| "truthy (PDict d) = (d \<noteq> [])"

text \<open>
  \<^verbatim>\<open>v[0]\<close>: the first element of a list, the first character of a string; a dictionary has
  string keys only, so the key \<open>0\<close> is missing; \<open>None\<close> and floats cannot be indexed.
\<close>

fun item0 :: "pyval \<Rightarrow> py_error + pyval" where
  "item0 (PList []) = Inl IndexError"
| "item0 (PList (x # xs)) = Inr x"
| "item0 (PStr s) = (case utf8_chars s of [] \<Rightarrow> Inl IndexError | c # cs \<Rightarrow> Inr (PStr c))"
| "item0 (PDict d) = Inl KeyError"
| "item0 v = Inl TypeError"

text \<open>
  A value inside an f-string: a string stands for itself, any other value for its
  \<^verbatim>\<open>str()\<close>, which is the parameter \<open>str_of\<close>.
\<close>

fun fmt :: "(pyval \<Rightarrow> string) \<Rightarrow> pyval \<Rightarrow> string" where
  "fmt str_of (PStr s) = s"
| "fmt str_of v = str_of v"

text \<open>The decimal numeral of an integer, \<^verbatim>\<open>str(i)\<close>.\<close>

fun digits :: "nat \<Rightarrow> string" where
  "digits n = (if n < 10 then [char_of (48 + n)] else digits (n div 10) @ [char_of (48 + n mod 10)])"

declare digits.simps [simp del]

definition str_int :: "int \<Rightarrow> string" where
  "str_int i = (if i < 0 then ''-'' @ digits (nat (- i)) else digits (nat i))"

text \<open>
  \<^verbatim>\<open>int(v * 100)\<close>: a float is scaled in double precision and truncated towards zero; a
  string is repeated 100 times and then parsed (\<open>int_of_str\<close>, the parameter, is \<open>None\<close>
  where \<^verbatim>\<open>int\<close> raises \<open>ValueError\<close>); a repeated list is no number; \<open>None\<close> and
  dictionaries cannot be multiplied.
\<close>

fun percent :: "(string \<Rightarrow> int option) \<Rightarrow> pyval \<Rightarrow> py_error + int" where
  "percent int_of_str (PFloat m) =
     Inr (let x = dmul (round_double m) 100 in if 0 \<le> x then \<lfloor>x\<rfloor> else \<lceil>x\<rceil>)"
| "percent int_of_str (PStr s) =
     (case int_of_str (concat (replicate 100 s)) of
        None \<Rightarrow> Inl ValueError
      | Some i \<Rightarrow> Inr i)"
| "percent int_of_str v = Inl TypeError"

text \<open>
  The rationale. \<^verbatim>\<open>if face_analysis and ...\<close> is false for \<open>None\<close> and for the empty
  dictionary.
\<close>

definition rationale_text :: "(pyval \<Rightarrow> string) \<Rightarrow> int \<Rightarrow> pydict option \<Rightarrow> string" where
  "rationale_text str_of pct face_analysis =
     (let rationale = ''('' @ str_int pct @ ''% mood score based on your words'';
          rationale =
            (case face_analysis of
               None \<Rightarrow> rationale
             | Some fa \<Rightarrow>
                 if fa \<noteq> [] \<and> dict_get fa ''dominant_emotion'' PNone \<noteq> PStr ''no_face_detected''
                 then rationale @ '' and detected face emotion '' @ [CHR 0x27]
                      @ fmt str_of (dict_get fa ''dominant_emotion'' PNone) @ [CHR 0x27]
                 else rationale)
      in rationale @ '')'')"

definition generate_feedback ::
  "(pyval \<Rightarrow> string) \<Rightarrow> (string \<Rightarrow> int option) \<Rightarrow> rand
     \<Rightarrow> pydict \<Rightarrow> pydict \<Rightarrow> pydict option \<Rightarrow> string option \<Rightarrow> py_error + pydict" where
  "generate_feedback str_of int_of_str rnd fusion text_analysis face_analysis name =
     (case templates_for (dict_get fusion ''category'' (PStr ''medium'')) of
        Inl e \<Rightarrow> Inl e
      | Inr ts \<Rightarrow>
     (case choice ts (draw_template rnd) of
        Inl e \<Rightarrow> Inl e
      | Inr template \<Rightarrow>
     (case pick_micro_action (draw_micro rnd) of
        Inl e \<Rightarrow> Inl e
      | Inr micro0 \<Rightarrow>
     (case (let keywords = dict_get text_analysis ''keywords'' (PList [])
            in if truthy keywords \<and> draw_uniform rnd < 0.4
               then (case item0 keywords of
                       Inl e \<Rightarrow> Inl e
                     | Inr k \<Rightarrow> Inr (micro0 @ '' related to '' @ fmt str_of k))
               else Inr micro0) of
        Inl e \<Rightarrow> Inl e
      | Inr micro \<Rightarrow>
     (let feedback_text = format_template template micro
      in case map_of fusion ''mood_score'' of
           None \<Rightarrow> Inl KeyError
         | Some ms \<Rightarrow>
             (case percent int_of_str ms of
                Inl e \<Rightarrow> Inl e
              | Inr pct \<Rightarrow>
                  Inr [(''feedback'', PStr feedback_text),
                       (''rationale'', PStr (rationale_text str_of pct face_analysis))]))))))"

section \<open>storage.py\<close>

text \<open>
  A row of the table \<open>entries\<close>. The timestamp is a count of microseconds. The two JSON
  columns hold the text that \<^verbatim>\<open>json.dumps\<close> writes; on the values of the model
  \<^verbatim>\<open>json.dumps\<close> never fails and is one-to-one, so the text is represented by the value it
  encodes.
\<close>

datatype json_text = JsonText pyval

record entry =
  id_col :: nat
  timestamp :: int
  text_col :: string
  text_emotion :: json_text
  face_emotion :: json_text
  mood_score :: real
  feedback :: pyval

definition json_dumps :: "pyval \<Rightarrow> json_text" where
  "json_dumps v = JsonText v"

text \<open>
  \<^verbatim>\<open>float(v)\<close>: a string is parsed (\<open>float_of_str\<close>, the parameter, is \<open>None\<close> where
  \<^verbatim>\<open>float\<close> raises \<open>ValueError\<close>); \<open>None\<close>, lists and dictionaries raise \<open>TypeError\<close>.
\<close>

fun py_float :: "(string \<Rightarrow> real option) \<Rightarrow> pyval \<Rightarrow> py_error + real" where
  "py_float float_of_str (PFloat x) = Inr x"
| "py_float float_of_str (PStr s) =
     (case float_of_str s of None \<Rightarrow> Inl ValueError | Some x \<Rightarrow> Inr x)"
| "py_float float_of_str v = Inl TypeError"

definition face_json :: "pydict option \<Rightarrow> pyval" where
  "face_json face_result = (case face_result of None \<Rightarrow> PNone | Some fa \<Rightarrow> PDict fa)"

text \<open>
  The constructor call \<^verbatim>\<open>Entry(...)\<close>; the key of the row is assigned by the database, one
  more than the largest key in the table.
\<close>

definition next_id :: "entry list \<Rightarrow> nat" where
  "next_id db = Suc (fold max (map id_col db) 0)"

definition new_entry ::
  "(string \<Rightarrow> real option) \<Rightarrow> int \<Rightarrow> entry list
     \<Rightarrow> string \<Rightarrow> pydict \<Rightarrow> pydict \<Rightarrow> pydict \<Rightarrow> pydict option \<Rightarrow> py_error + entry" where
  "new_entry float_of_str now db text_in feedback_obj fusion text_result face_result =
     (case py_float float_of_str (dict_get fusion ''mood_score'' (PFloat 0.0)) of
        Inl e \<Rightarrow> Inl e
      | Inr ms \<Rightarrow>
          Inr \<lparr>id_col = next_id db,
               timestamp = now,
               text_col = text_in,
               text_emotion = json_dumps (PDict text_result),
               face_emotion = json_dumps (face_json face_result),
               mood_score = ms,
               feedback = dict_get feedback_obj ''message'' (PStr '''')\<rparr>)"

text \<open>
  What lies outside the program when \<open>save_entry\<close> runs: the clock, whether the session
  can be opened, committed, rolled back and closed, and whether standard output can encode
  the two messages that \<open>save_entry\<close> prints. Both messages begin with a character outside
  ASCII and Latin-1 (U+2705 and U+274C); on a stream that cannot encode them \<^verbatim>\<open>print\<close> raises
  \<open>UnicodeEncodeError\<close>.
\<close>

record env =
  clock :: int
  session_opens :: bool
  commit_succeeds :: bool
  stdout_encodes :: bool
  rollback_succeeds :: bool
  close_succeeds :: bool

definition print_message :: "env \<Rightarrow> py_error + unit" where
  "print_message E = (if stdout_encodes E then Inr () else Inl UnicodeEncodeError)"

text \<open>
  The body of the \<^verbatim>\<open>try\<close> block: build the row, add and commit it, print the success
  message. The result is how the block ends and the table it leaves; a row that has been
  committed stays in the table whatever happens afterwards.
\<close>

definition save_entry_try ::
  "(string \<Rightarrow> real option) \<Rightarrow> env \<Rightarrow> entry list
     \<Rightarrow> string \<Rightarrow> pydict \<Rightarrow> pydict \<Rightarrow> pydict \<Rightarrow> pydict option
     \<Rightarrow> (py_error + unit) \<times> entry list" where
  "save_entry_try float_of_str E db text_in feedback_obj fusion text_result face_result =
     (case new_entry float_of_str (clock E) db text_in feedback_obj fusion text_result face_result of
        Inl e \<Rightarrow> (Inl e, db)
      | Inr en \<Rightarrow>
          if commit_succeeds E then (print_message E, db @ [en])
          else (Inl OperationalError, db))"

text \<open>
  The handler of \<^verbatim>\<open>except Exception\<close>: print the failure message, then roll back. Rolling
  back does not change the table: a failed commit has written nothing, a successful one is
  final.
\<close>

definition save_entry_except :: "env \<Rightarrow> py_error + unit" where
  "save_entry_except E =
     (case print_message E of
        Inl e \<Rightarrow> Inl e
      | Inr u \<Rightarrow> if rollback_succeeds E then Inr () else Inl OperationalError)"

text \<open>
  \<open>save_entry\<close>: the session is opened before the \<^verbatim>\<open>try\<close>; every exception of the block
  (all exceptions of the model are subclasses of \<open>Exception\<close>) goes to the handler; the
  \<^verbatim>\<open>finally\<close> clause closes the session, and an exception of \<^verbatim>\<open>close\<close> replaces whatever was
  on its way. \<open>Inr ()\<close> is the normal return, \<open>Inl e\<close> an exception raised to the caller.
\<close>

definition save_entry ::
  "(string \<Rightarrow> real option) \<Rightarrow> env \<Rightarrow> entry list
     \<Rightarrow> string \<Rightarrow> pydict \<Rightarrow> pydict \<Rightarrow> pydict \<Rightarrow> pydict option
     \<Rightarrow> (py_error + unit) \<times> entry list" where
  "save_entry float_of_str E db text_in feedback_obj fusion text_result face_result =
     (if session_opens E
      then
        (case save_entry_try float_of_str E db text_in feedback_obj fusion
                text_result face_result of
           (r, db') \<Rightarrow>
             (let r' = (case r of Inr u \<Rightarrow> Inr u | Inl e \<Rightarrow> save_entry_except E)
              in (if close_succeeds E then r' else Inl OperationalError, db')))
      else (Inl OperationalError, db))"

text \<open>
  \<open>load_entries\<close>: all rows, latest timestamp first. SQL leaves the order of rows with equal
  timestamps open; the model keeps them in the order of insertion.
\<close>

definition load_entries :: "entry list \<Rightarrow> entry list" where
  "load_entries db = sort_key (\<lambda>e. - timestamp e) db"

section \<open>Evaluation in double precision\<close>

lemmas double_eval = round_double_def round_positive_def exponent_def pow2_def
  round_half_even_def bitlen.simps dmul_def dadd_def dsub_def Let_def

section \<open>Properties of the fusion engine\<close>

lemma is_floatE: "is_float v \<Longrightarrow> \<exists>x. v = PFloat x"
  by (cases v) (simp_all add: is_float_def)

lemma is_strE: "is_str v \<Longrightarrow> \<exists>s. v = PStr s"
  by (cases v) (simp_all add: is_str_def)

lemma in_unitE: "in_unit v \<Longrightarrow> \<exists>x. v = PFloat x \<and> 0 \<le> x \<and> x \<le> 1"
  by (cases v) (simp_all add: in_unit_def)

lemma emotion_base_spec: "emotion_base (PStr s) = Inr (spec_base_score s)"
  by (simp add: EMOTION_TO_SCORE_def spec_base_score_def)

lemma spec_base_score_unit: "0 \<le> spec_base_score s \<and> spec_base_score s \<le> 1"
  by (simp add: spec_base_score_def)

lemma blend_unit:
  fixes a b c :: real
  assumes "0 \<le> a" "a \<le> 1" "0 \<le> b" "b \<le> 1" "0 \<le> c" "c \<le> 1"
  shows "0 \<le> a * c + b * (1 - c)" and "a * c + b * (1 - c) \<le> 1"
proof -
  show "0 \<le> a * c + b * (1 - c)" using assms by simp
  have "a * c \<le> 1 * c" using assms by (intro mult_right_mono) auto
  moreover have "b * (1 - c) \<le> 1 * (1 - c)" using assms by (intro mult_right_mono) auto
  ultimately show "a * c + b * (1 - c) \<le> 1" by simp
qed

lemma weighted_unit:
  fixes p q x y :: real
  assumes "0 \<le> p" "0 \<le> q" "p + q \<le> 1" "0 \<le> x" "x \<le> 1" "0 \<le> y" "y \<le> 1"
  shows "0 \<le> p * x + q * y" and "p * x + q * y \<le> 1"
proof -
  show "0 \<le> p * x + q * y" using assms by simp
  have "p * x \<le> p * 1" using assms by (intro mult_left_mono) auto
  moreover have "q * y \<le> q * 1" using assms by (intro mult_left_mono) auto
  ultimately show "p * x + q * y \<le> 1" using assms by simp
qed

lemma face_part_None: "face_part None = Inr (0.5, 0)"
  by (simp add: face_part_def)

lemma face_part_absent:
  "fa = [] \<or> dict_get fa ''dominant_emotion'' PNone = PStr ''no_face_detected''
   \<Longrightarrow> face_part (Some fa) = Inr (0.5, 0)"
  by (simp add: face_part_def)

lemma face_part_present:
  assumes "fa \<noteq> []" "dict_get fa ''dominant_emotion'' PNone \<noteq> PStr ''no_face_detected''"
    and "dict_get fa ''dominant_emotion'' (PStr ''neutral'') = PStr s"
    and "dict_get fa ''score'' (PFloat 0) = PFloat c"
  shows "face_part (Some fa) = Inr (spec_base_score s * c + 0.5 * (1 - c), c)"
  using assms by (simp add: face_part_def map_face_emotion_score_def emotion_base_spec del: emotion_base.simps)

lemma face_part_typed:
  assumes "is_str (dict_get fa ''dominant_emotion'' (PStr ''neutral''))"
    and "is_float (dict_get fa ''score'' (PFloat 0))"
  shows "\<exists>fc c. face_part (Some fa) = Inr (fc, c)"
proof -
  obtain s where s: "dict_get fa ''dominant_emotion'' (PStr ''neutral'') = PStr s"
    using assms(1) is_strE by blast
  obtain c where c: "dict_get fa ''score'' (PFloat 0) = PFloat c"
    using assms(2) is_floatE by blast
  show ?thesis
  proof (cases "fa = [] \<or> dict_get fa ''dominant_emotion'' PNone = PStr ''no_face_detected''")
    case True
    then show ?thesis using face_part_absent by blast
  next
    case False
    then show ?thesis using face_part_present [OF _ _ s c] by blast
  qed
qed

lemma fuse_steps_eq:
  assumes "dict_get t ''valence'' (PFloat 0.5) = PFloat v"
    and "dict_get t ''motivation_score'' (PFloat 0) = PFloat m"
    and "face_part f = Inr (fc, c)"
  shows "fuse_steps t f (p, q) =
     Inr \<lparr>text_val = v, text_mot = m, text_comp = 0.8 * v + 0.2 * m, face_comp = fc,
           face_conf = c,
           w_text = (if c < 0.1 then 0.9 else p), w_face = (if c < 0.1 then 0.1 else q),
           mood = (if c < 0.1 then 0.9 else p) * (0.8 * v + 0.2 * m)
                + (if c < 0.1 then 0.1 else q) * fc,
           category = bucket ((if c < 0.1 then 0.9 else p) * (0.8 * v + 0.2 * m)
                + (if c < 0.1 then 0.1 else q) * fc)\<rparr>"
  using assms by (simp add: fuse_steps_def Let_def)

lemma fuse_steps_InrD:
  assumes "fuse_steps t f (p, q) = Inr L"
  shows "\<exists>v m fc c. dict_get t ''valence'' (PFloat 0.5) = PFloat v
           \<and> dict_get t ''motivation_score'' (PFloat 0) = PFloat m
           \<and> face_part f = Inr (fc, c)"
proof -
  from assms obtain v where v: "operand (dict_get t ''valence'' (PFloat 0.5)) = Inr v"
    by (auto simp: fuse_steps_def split: sum.splits)
  from assms obtain m where m: "operand (dict_get t ''motivation_score'' (PFloat 0)) = Inr m"
    by (auto simp: fuse_steps_def split: sum.splits)
  from assms obtain fc c where f: "face_part f = Inr (fc, c)"
    by (auto simp: fuse_steps_def split: sum.splits)
  have "dict_get t ''valence'' (PFloat 0.5) = PFloat v"
    using v by (cases "dict_get t ''valence'' (PFloat 0.5)") auto
  moreover have "dict_get t ''motivation_score'' (PFloat 0) = PFloat m"
    using m by (cases "dict_get t ''motivation_score'' (PFloat 0)") auto
  ultimately show ?thesis using f by blast
qed

lemma in_unit_is_float: "in_unit v \<Longrightarrow> is_float v"
  by (cases v) (simp_all add: in_unit_def is_float_def)

lemma face_part_total:
  assumes "face_typed f"
  shows "\<exists>fc c. face_part f = Inr (fc, c)"
proof (cases f)
  case None
  then show ?thesis using face_part_None by blast
next
  case (Some fa)
  with assms show ?thesis using face_part_typed [of fa] by (simp add: face_typed_def)
qed

lemma face_part_unit:
  assumes "face_signal_ok f" and "face_part f = Inr (fc, c)"
  shows "0 \<le> fc \<and> fc \<le> 1"
proof (cases f)
  case None
  with assms(2) show ?thesis by (simp add: face_part_None)
next
  case (Some fa)
  from assms(1) Some obtain s where s: "dict_get fa ''dominant_emotion'' (PStr ''neutral'') = PStr s"
    using is_strE by (auto simp: face_signal_ok_def)
  from assms(1) Some obtain x where x: "dict_get fa ''score'' (PFloat 0) = PFloat x" "0 \<le> x" "x \<le> 1"
    using in_unitE by (auto simp: face_signal_ok_def)
  show ?thesis
  proof (cases "fa = [] \<or> dict_get fa ''dominant_emotion'' PNone = PStr ''no_face_detected''")
    case True
    with assms(2) Some show ?thesis using face_part_absent [of fa] by simp
  next
    case False
    then have "face_part (Some fa) = Inr (spec_base_score s * x + 0.5 * (1 - x), x)"
      using face_part_present [OF _ _ s x(1)] by blast
    with assms(2) Some have fc: "fc = spec_base_score s * x + 0.5 * (1 - x)" by auto
    have "0 \<le> spec_base_score s * x + 0.5 * (1 - x)"
      and "spec_base_score s * x + 0.5 * (1 - x) \<le> 1"
      using blend_unit [of "spec_base_score s" "0.5" x] spec_base_score_unit [of s] x by simp_all
    with fc show ?thesis by simp
  qed
qed

lemma fuse_steps_total:
  assumes "text_typed t" "face_typed f"
  shows "\<exists>L. fuse_steps t f (p, q) = Inr L"
proof -
  obtain v where v: "dict_get t ''valence'' (PFloat 0.5) = PFloat v"
    using assms(1) is_floatE by (auto simp: text_typed_def)
  obtain m where m: "dict_get t ''motivation_score'' (PFloat 0) = PFloat m"
    using assms(1) is_floatE by (auto simp: text_typed_def)
  obtain fc c where f: "face_part f = Inr (fc, c)"
    using face_part_total [OF assms(2)] by blast
  show ?thesis using fuse_steps_eq [OF v m f] by blast
qed

lemma fuse_of_steps: "fuse_steps t f w = Inr L \<Longrightarrow> fuse t f w = Inr (fusion_result L)"
  by (simp add: fuse_def)

lemmas fuse_eval = fuse_def fuse_steps_def fusion_result_def face_part_def dict_get_def
  map_face_emotion_score_def EMOTION_TO_SCORE_def bucket_def Let_def

text \<open>
  When the weights are non-negative and sum to at most 1, as the default \<open>(0.6, 0.4)\<close> and
  the override \<open>(0.9, 0.1)\<close> do, and the signals lie in \<open>[0,1]\<close>, the mood score is
  \<open>w_text * text_comp + w_face * face_comp\<close> and lies in \<open>[0,1]\<close>, as do both components.
\<close>

lemma fuse_mood_in_unit_interval:
  assumes "text_signal_ok t" and "face_signal_ok f"
    and "0 \<le> p" and "0 \<le> q" and "p + q \<le> 1"
  shows "\<exists>L. fuse_steps t f (p, q) = Inr L \<and> fuse t f (p, q) = Inr (fusion_result L)
           \<and> (w_text L, w_face L) = (if face_conf L < 0.1 then (0.9, 0.1) else (p, q))
           \<and> mood L = w_text L * text_comp L + w_face L * face_comp L
           \<and> 0 \<le> mood L \<and> mood L \<le> 1
           \<and> 0 \<le> text_comp L \<and> text_comp L \<le> 1
           \<and> 0 \<le> face_comp L \<and> face_comp L \<le> 1"
proof -
  obtain v where v: "dict_get t ''valence'' (PFloat 0.5) = PFloat v" "0 \<le> v" "v \<le> 1"
    using assms(1) in_unitE by (auto simp: text_signal_ok_def)
  obtain m where m: "dict_get t ''motivation_score'' (PFloat 0) = PFloat m" "0 \<le> m" "m \<le> 1"
    using assms(1) in_unitE by (auto simp: text_signal_ok_def)
  have "face_typed f"
    using assms(2) by (auto simp: face_signal_ok_def face_typed_def in_unit_is_float split: option.splits)
  then obtain fc c where f: "face_part f = Inr (fc, c)"
    using face_part_total by blast
  have fc: "0 \<le> fc" "fc \<le> 1"
    using face_part_unit [OF assms(2) f] by simp_all
  define tc where "tc = 0.8 * v + 0.2 * m"
  have tc: "0 \<le> tc" "tc \<le> 1"
    using v m by (simp_all add: tc_def)
  define a where "a = (if c < 0.1 then 0.9 else p)"
  define b where "b = (if c < 0.1 then 0.1 else q)"
  have ab: "0 \<le> a" "0 \<le> b" "a + b \<le> 1"
    using assms(3-5) by (simp_all add: a_def b_def)
  have mood: "0 \<le> a * tc + b * fc" "a * tc + b * fc \<le> 1"
    using weighted_unit [OF ab tc fc] by simp_all
  define L where "L = \<lparr>text_val = v, text_mot = m, text_comp = tc, face_comp = fc,
       face_conf = c, w_text = a, w_face = b, mood = a * tc + b * fc,
       category = bucket (a * tc + b * fc)\<rparr>"
  have steps: "fuse_steps t f (p, q) = Inr L"
    using fuse_steps_eq [OF v(1) m(1) f, of p q] by (simp add: L_def tc_def a_def b_def)
  have "(w_text L, w_face L) = (if face_conf L < 0.1 then (0.9, 0.1) else (p, q))"
    by (simp add: L_def a_def b_def)
  moreover have "mood L = w_text L * text_comp L + w_face L * face_comp L"
    by (simp add: L_def)
  moreover have "0 \<le> mood L \<and> mood L \<le> 1" using mood by (simp add: L_def)
  moreover have "0 \<le> text_comp L \<and> text_comp L \<le> 1" using tc by (simp add: L_def)
  moreover have "0 \<le> face_comp L \<and> face_comp L \<le> 1" using fc by (simp add: L_def)
  ultimately show ?thesis using steps fuse_of_steps [OF steps] by blast
qed

lemma fuse_mood_in_unit_interval_example:
  "text_signal_ok [(''valence'', PFloat 0.8), (''motivation_score'', PFloat 0.3)]
   \<and> face_signal_ok (Some [(''dominant_emotion'', PStr ''happy''), (''score'', PFloat 0.8)])
   \<and> (\<exists>L. fuse_steps [(''valence'', PFloat 0.8), (''motivation_score'', PFloat 0.3)]
             (Some [(''dominant_emotion'', PStr ''happy''), (''score'', PFloat 0.8)]) (0.6, 0.4) = Inr L
          \<and> mood L = 0.748 \<and> 0 \<le> mood L \<and> mood L \<le> 1)"
proof -
  have t: "text_signal_ok [(''valence'', PFloat 0.8), (''motivation_score'', PFloat 0.3)]"
    by (simp add: text_signal_ok_def in_unit_def dict_get_def)
  have f: "face_signal_ok (Some [(''dominant_emotion'', PStr ''happy''), (''score'', PFloat 0.8)])"
    by (simp add: face_signal_ok_def in_unit_def is_str_def dict_get_def)
  have s: "fuse_steps [(''valence'', PFloat 0.8), (''motivation_score'', PFloat 0.3)]
             (Some [(''dominant_emotion'', PStr ''happy''), (''score'', PFloat 0.8)]) (0.6, 0.4)
           = Inr \<lparr>text_val = 0.8, text_mot = 0.3, text_comp = 0.7, face_comp = 0.82,
       face_conf = 0.8, w_text = 0.6, w_face = 0.4, mood = 0.748,
       category = ''high''\<rparr>"
    by (simp add: fuse_eval)
  from fuse_mood_in_unit_interval [OF t f, of "0.6" "0.4"] s
  show ?thesis using t f by auto
qed

text \<open>
  C1 asks that the mood score lies in \<open>[0,1]\<close> whenever the signals and each of the two
  weights do. \<open>fuse\<close> neither clamps the score nor normalises the weights: with the weights
  \<open>(1, 1)\<close>, a fully positive text and a certain happy face it returns the mood score 1.9.
\<close>

theorem fuse_mood_above_one:
  "text_signal_ok [(''valence'', PFloat 1), (''motivation_score'', PFloat 1)]
   \<and> face_signal_ok (Some [(''dominant_emotion'', PStr ''happy''), (''score'', PFloat 1)])
   \<and> (0::real) \<le> 1 \<and> (1::real) \<le> 1
   \<and> fuse [(''valence'', PFloat 1), (''motivation_score'', PFloat 1)]
           (Some [(''dominant_emotion'', PStr ''happy''), (''score'', PFloat 1)]) (1, 1)
      = Inr [(''mood_score'', PFloat 1.9), (''category'', PStr ''high''),
              (''components'', PDict [(''text_comp'', PFloat 1), (''face_comp'', PFloat 0.9),
                 (''text_valence'', PFloat 1), (''motivation_score'', PFloat 1)])]
   \<and> \<not> ((1.9::real) \<le> 1)"
  by (simp add: fuse_eval text_signal_ok_def face_signal_ok_def in_unit_def is_str_def)

lemma fuse_InrD:
  assumes "fuse t f w = Inr r"
  shows "\<exists>L. fuse_steps t f w = Inr L \<and> r = fusion_result L"
  using assms by (auto simp: fuse_def split: sum.splits)

lemma fuse_steps_fields:
  assumes "fuse_steps t f (p, q) = Inr L"
  shows "face_part f = Inr (face_comp L, face_conf L)"
    and "dict_get t ''valence'' (PFloat 0.5) = PFloat (text_val L)"
    and "dict_get t ''motivation_score'' (PFloat 0) = PFloat (text_mot L)"
    and "text_comp L = 0.8 * text_val L + 0.2 * text_mot L"
    and "w_text L = (if face_conf L < 0.1 then 0.9 else p)"
    and "w_face L = (if face_conf L < 0.1 then 0.1 else q)"
    and "mood L = w_text L * text_comp L + w_face L * face_comp L"
    and "category L = bucket (mood L)"
proof -
  obtain v m fc c where h: "dict_get t ''valence'' (PFloat 0.5) = PFloat v"
      "dict_get t ''motivation_score'' (PFloat 0) = PFloat m" "face_part f = Inr (fc, c)"
    using fuse_steps_InrD [OF assms] by blast
  note eq = fuse_steps_eq [OF h, of p q]
  from eq assms have L: "L = \<lparr>text_val = v, text_mot = m, text_comp = 0.8 * v + 0.2 * m, face_comp = fc,
           face_conf = c,
           w_text = (if c < 0.1 then 0.9 else p), w_face = (if c < 0.1 then 0.1 else q),
           mood = (if c < 0.1 then 0.9 else p) * (0.8 * v + 0.2 * m)
                + (if c < 0.1 then 0.1 else q) * fc,
           category = bucket ((if c < 0.1 then 0.9 else p) * (0.8 * v + 0.2 * m)
                + (if c < 0.1 then 0.1 else q) * fc)\<rparr>" by simp
  show "face_part f = Inr (face_comp L, face_conf L)" using h by (simp add: L)
  show "dict_get t ''valence'' (PFloat 0.5) = PFloat (text_val L)" using h by (simp add: L)
  show "dict_get t ''motivation_score'' (PFloat 0) = PFloat (text_mot L)" using h by (simp add: L)
  show "text_comp L = 0.8 * text_val L + 0.2 * text_mot L" by (simp add: L)
  show "w_text L = (if face_conf L < 0.1 then 0.9 else p)" by (simp add: L)
  show "w_face L = (if face_conf L < 0.1 then 0.1 else q)" by (simp add: L)
  show "mood L = w_text L * text_comp L + w_face L * face_comp L" by (simp add: L)
  show "category L = bucket (mood L)" by (simp add: L)
qed

text \<open>
  C3. Whenever \<open>fuse\<close> returns, the category is a step function of the mood score with
  the fixed thresholds 0.35 and 0.70: below 0.35 it is "low", from 0.35 and below 0.70 it is
  "medium", from 0.70 it is "high"; it is always one of these three labels.
\<close>

theorem fuse_category_thresholds:
  assumes "fuse t f w = Inr r"
  shows "\<exists>m c comps.
           r = [(''mood_score'', PFloat m), (''category'', PStr c), (''components'', comps)]
           \<and> (m < 0.35 \<longrightarrow> c = ''low'')
           \<and> (0.35 \<le> m \<and> m < 0.7 \<longrightarrow> c = ''medium'')
           \<and> (0.7 \<le> m \<longrightarrow> c = ''high'')
           \<and> (c = ''low'' \<or> c = ''medium'' \<or> c = ''high'')"
proof -
  obtain L where L: "fuse_steps t f w = Inr L" "r = fusion_result L"
    using fuse_InrD [OF assms] by blast
  obtain p q where w: "w = (p, q)" by (cases w)
  have c: "category L = bucket (mood L)"
    using fuse_steps_fields(8) L(1) w by blast
  have "(mood L < 0.35 \<longrightarrow> category L = ''low'')
      \<and> (0.35 \<le> mood L \<and> mood L < 0.7 \<longrightarrow> category L = ''medium'')
      \<and> (0.7 \<le> mood L \<longrightarrow> category L = ''high'')
      \<and> (category L = ''low'' \<or> category L = ''medium'' \<or> category L = ''high'')"
    by (simp add: c bucket_def)
  then show ?thesis unfolding L(2) fusion_result_def by blast
qed

theorem fuse_category_thresholds_witness:
  "fuse [(''valence'', PFloat 1), (''motivation_score'', PFloat 1)]
        (Some [(''dominant_emotion'', PStr ''happy''), (''score'', PFloat 1)]) (0.35, 0)
     = Inr [(''mood_score'', PFloat 0.35), (''category'', PStr ''medium''),
              (''components'', PDict [(''text_comp'', PFloat 1), (''face_comp'', PFloat 0.9),
                 (''text_valence'', PFloat 1), (''motivation_score'', PFloat 1)])]
   \<and> (\<exists>m c comps.
           [(''mood_score'', PFloat 0.35), (''category'', PStr ''medium''),
              (''components'', PDict [(''text_comp'', PFloat 1), (''face_comp'', PFloat 0.9),
                 (''text_valence'', PFloat 1), (''motivation_score'', PFloat 1)])]
            = [(''mood_score'', PFloat m), (''category'', PStr c), (''components'', comps)]
           \<and> (m < 0.35 \<longrightarrow> c = ''low'')
           \<and> (0.35 \<le> m \<and> m < 0.7 \<longrightarrow> c = ''medium'')
           \<and> (0.7 \<le> m \<longrightarrow> c = ''high'')
           \<and> (c = ''low'' \<or> c = ''medium'' \<or> c = ''high''))"
proof -
  have h: "fuse [(''valence'', PFloat 1), (''motivation_score'', PFloat 1)]
        (Some [(''dominant_emotion'', PStr ''happy''), (''score'', PFloat 1)]) (0.35, 0)
     = Inr [(''mood_score'', PFloat 0.35), (''category'', PStr ''medium''),
              (''components'', PDict [(''text_comp'', PFloat 1), (''face_comp'', PFloat 0.9),
                 (''text_valence'', PFloat 1), (''motivation_score'', PFloat 1)])]"
    by (simp add: fuse_eval)
  show ?thesis using h fuse_category_thresholds [OF h] by simp
qed

text \<open>The two thresholds themselves: 0.35 is "medium" and 0.70 is "high".\<close>

lemma bucket_boundaries:
  "bucket 0.35 = ''medium''" "bucket 0.7 = ''high''"
  by (simp_all add: bucket_def)

lemma fuse_at_boundaries:
  "fuse [(''valence'', PFloat 1), (''motivation_score'', PFloat 1)]
        (Some [(''dominant_emotion'', PStr ''happy''), (''score'', PFloat 1)]) (0.35, 0)
     = Inr [(''mood_score'', PFloat 0.35), (''category'', PStr ''medium''),
              (''components'', PDict [(''text_comp'', PFloat 1), (''face_comp'', PFloat 0.9),
                 (''text_valence'', PFloat 1), (''motivation_score'', PFloat 1)])]"
  "fuse [(''valence'', PFloat 1), (''motivation_score'', PFloat 1)]
        (Some [(''dominant_emotion'', PStr ''happy''), (''score'', PFloat 1)]) (0.7, 0)
     = Inr [(''mood_score'', PFloat 0.7), (''category'', PStr ''high''),
              (''components'', PDict [(''text_comp'', PFloat 1), (''face_comp'', PFloat 0.9),
                 (''text_valence'', PFloat 1), (''motivation_score'', PFloat 1)])]"
  by (simp_all add: fuse_eval)

text \<open>
  C4. Whenever \<open>fuse\<close> returns, the weights that enter the mood score are \<open>(0.9, 0.1)\<close>
  if the effective face confidence is below 0.1, whatever the caller supplied, and the
  caller's weights unchanged if the confidence is at least 0.1.
\<close>

theorem fuse_weight_override:
  assumes "fuse_steps t f (p, q) = Inr L"
  shows "face_part f = Inr (face_comp L, face_conf L)
       \<and> (face_conf L < 0.1 \<longrightarrow> w_text L = 0.9 \<and> w_face L = 0.1)
       \<and> (0.1 \<le> face_conf L \<longrightarrow> w_text L = p \<and> w_face L = q)
       \<and> mood L = w_text L * text_comp L + w_face L * face_comp L
       \<and> fuse t f (p, q) = Inr (fusion_result L)"
  using fuse_steps_fields [OF assms] fuse_of_steps [OF assms] by simp

theorem fuse_weight_override_witness:
  "fuse_steps [(''valence'', PFloat 0.5)]
      (Some [(''dominant_emotion'', PStr ''sad''), (''score'', PFloat 0.05)]) (0.2, 0.8)
     = Inr \<lparr>text_val = 0.5, text_mot = 0, text_comp = 0.4, face_comp = 0.485,
            face_conf = 0.05, w_text = 0.9, w_face = 0.1, mood = 0.4085,
            category = ''medium''\<rparr>
   \<and> fuse [(''valence'', PFloat 0.5)]
      (Some [(''dominant_emotion'', PStr ''sad''), (''score'', PFloat 0.05)]) (0.2, 0.8)
     = Inr (fusion_result \<lparr>text_val = 0.5, text_mot = 0, text_comp = 0.4, face_comp = 0.485,
            face_conf = 0.05, w_text = 0.9, w_face = 0.1, mood = 0.4085,
            category = ''medium''\<rparr>)"
proof -
  have h: "fuse_steps [(''valence'', PFloat 0.5)]
      (Some [(''dominant_emotion'', PStr ''sad''), (''score'', PFloat 0.05)]) (0.2, 0.8)
     = Inr \<lparr>text_val = 0.5, text_mot = 0, text_comp = 0.4, face_comp = 0.485,
            face_conf = 0.05, w_text = 0.9, w_face = 0.1, mood = 0.4085,
            category = ''medium''\<rparr>"
    by (simp add: fuse_eval)
  show ?thesis using h fuse_weight_override [OF h] by simp
qed



text \<open>
  The three worked examples in exact arithmetic: 0.748 and "high", 0.41 and "medium", 0.14
  and "low".
\<close>

lemma fuse_worked_examples_exact:
  "fuse [(''valence'', PFloat 0.8), (''motivation_score'', PFloat 0.3)]
        (Some [(''dominant_emotion'', PStr ''happy''), (''score'', PFloat 0.8)]) (0.6, 0.4)
     = Inr [(''mood_score'', PFloat 0.748), (''category'', PStr ''high''),
              (''components'', PDict [(''text_comp'', PFloat 0.70), (''face_comp'', PFloat 0.82),
                 (''text_valence'', PFloat 0.8), (''motivation_score'', PFloat 0.3)])]
   \<and> fuse [(''valence'', PFloat 0.5), (''motivation_score'', PFloat 0.0)] None (0.6, 0.4)
     = Inr [(''mood_score'', PFloat 0.41), (''category'', PStr ''medium''),
              (''components'', PDict [(''text_comp'', PFloat 0.4), (''face_comp'', PFloat 0.5),
                 (''text_valence'', PFloat 0.5), (''motivation_score'', PFloat 0.0)])]
   \<and> fuse [(''valence'', PFloat 0.1), (''motivation_score'', PFloat 0.0)]
        (Some [(''dominant_emotion'', PStr ''sad''), (''score'', PFloat 0.9)]) (0.6, 0.4)
     = Inr [(''mood_score'', PFloat 0.14), (''category'', PStr ''low''),
              (''components'', PDict [(''text_comp'', PFloat 0.08), (''face_comp'', PFloat 0.23),
                 (''text_valence'', PFloat 0.1), (''motivation_score'', PFloat 0.0)])]"
  by (simp add: fuse_eval)

lemma face_part_no_score:
  assumes "face_typed (Some fa)" and "map_of fa ''score'' = None"
  shows "\<exists>fc. face_part (Some fa) = Inr (fc, 0)"
proof -
  have sc: "dict_get fa ''score'' (PFloat 0) = PFloat 0"
    using assms(2) by (simp add: dict_get_def)
  obtain s where s: "dict_get fa ''dominant_emotion'' (PStr ''neutral'') = PStr s"
    using assms(1) is_strE by (auto simp: face_typed_def)
  show ?thesis
  proof (cases "fa = [] \<or> dict_get fa ''dominant_emotion'' PNone = PStr ''no_face_detected''")
    case True
    then show ?thesis using face_part_absent [OF True] by blast
  next
    case False
    then have "fa \<noteq> []" "dict_get fa ''dominant_emotion'' PNone \<noteq> PStr ''no_face_detected''"
      by simp_all
    from face_part_present [OF this s sc] show ?thesis by blast
  qed
qed

section \<open>Totality of the fusion engine\<close>

lemma fuse_explicit:
  assumes "dict_get t ''valence'' (PFloat 0.5) = PFloat v"
    and "dict_get t ''motivation_score'' (PFloat 0) = PFloat m"
    and "face_part f = Inr (fc, c)"
  shows "fuse t f (p, q) =
     Inr [(''mood_score'',
             PFloat ((if c < 0.1 then 0.9 else p) * (0.8 * v + 0.2 * m)
                     + (if c < 0.1 then 0.1 else q) * fc)),
          (''category'',
             PStr (bucket ((if c < 0.1 then 0.9 else p) * (0.8 * v + 0.2 * m)
                           + (if c < 0.1 then 0.1 else q) * fc))),
          (''components'',
             PDict [(''text_comp'', PFloat (0.8 * v + 0.2 * m)),
                    (''face_comp'', PFloat fc),
                    (''text_valence'', PFloat v),
                    (''motivation_score'', PFloat m)])]"
  using fuse_steps_eq [OF assms, of p q] by (simp add: fuse_def fusion_result_def)

lemma fuse_reads_two_keys:
  assumes "dict_get t' ''valence'' (PFloat 0.5) = dict_get t ''valence'' (PFloat 0.5)"
    and "dict_get t' ''motivation_score'' (PFloat 0) = dict_get t ''motivation_score'' (PFloat 0)"
  shows "fuse t' f w = fuse t f w"
proof -
  have z: "PFloat 0.0 = PFloat 0" by simp
  show ?thesis unfolding fuse_def fuse_steps_def z assms by (rule refl)
qed



lemma fuse_reads_face_part:
  assumes "face_part f' = face_part f"
  shows "fuse t f' w = fuse t f w"
  unfolding fuse_def fuse_steps_def assms by (rule refl)

lemma face_part_score_default:
  assumes "map_of fa ''score'' = None"
  shows "face_part (Some ((''score'', PFloat 0) # fa)) = face_part (Some fa)"
proof (cases "fa = []")
  case True
  then show ?thesis
    by (simp add: face_part_def dict_get_def map_face_emotion_score_def EMOTION_TO_SCORE_def)
next
  case False
  with assms show ?thesis
    by (simp add: face_part_def dict_get_def)
qed

lemma fuse_forced_weights:
  assumes "fuse_steps t f (p, q) = Inr L" and "face_conf L = 0"
  shows "fuse t f (p, q) = fuse t f (9 / 10, 1 / 10)"
proof -
  obtain v m fc c where h: "dict_get t ''valence'' (PFloat 0.5) = PFloat v"
      "dict_get t ''motivation_score'' (PFloat 0) = PFloat m" "face_part f = Inr (fc, c)"
    using fuse_steps_InrD [OF assms(1)] by blast
  have "c = 0" using fuse_steps_fields(1) [OF assms(1)] h(3) assms(2) by simp
  then show ?thesis
    using fuse_explicit [OF h, of p q] fuse_explicit [OF h, of "9 / 10" "1 / 10"] by simp
qed

text \<open>
  C10. \<open>fuse\<close> accepts dictionaries with missing keys. Provided the values that are present
  have the types of the data model, it returns the dictionary computed from valence \<open>v\<close>,
  motivation score \<open>m\<close>, face component \<open>fc\<close> and confidence \<open>c\<close>, where a missing
  \<open>valence\<close> gives \<open>v = 0.5\<close>, a missing \<open>motivation_score\<close> gives \<open>m = 0\<close>, and a face
  dictionary without \<open>score\<close> gives \<open>c = 0\<close> and \<open>fc = 0.5\<close>. In each case the result is the
  one for the dictionary with the default written in, and without \<open>score\<close> it is the result
  for the weights \<open>(0.9, 0.1)\<close>, whatever the caller supplied.
\<close>

theorem fuse_missing_keys:
  assumes "text_typed t" and "face_typed f"
  shows "\<exists>v m fc c.
           dict_get t ''valence'' (PFloat 0.5) = PFloat v
         \<and> dict_get t ''motivation_score'' (PFloat 0) = PFloat m
         \<and> face_part f = Inr (fc, c)
         \<and> (map_of t ''valence'' = None \<longrightarrow> v = 0.5)
         \<and> (map_of t ''motivation_score'' = None \<longrightarrow> m = 0)
         \<and> (\<forall>fa. f = Some fa \<and> map_of fa ''score'' = None \<longrightarrow> c = 0 \<and> fc = 0.5)
         \<and> fuse t f (p, q) =
               Inr [(''mood_score'',
                       PFloat ((if c < 0.1 then 0.9 else p) * (0.8 * v + 0.2 * m)
                               + (if c < 0.1 then 0.1 else q) * fc)),
                    (''category'',
                       PStr (bucket ((if c < 0.1 then 0.9 else p) * (0.8 * v + 0.2 * m)
                                     + (if c < 0.1 then 0.1 else q) * fc))),
                    (''components'',
                       PDict [(''text_comp'', PFloat (0.8 * v + 0.2 * m)),
                              (''face_comp'', PFloat fc),
                              (''text_valence'', PFloat v),
                              (''motivation_score'', PFloat m)])]
         \<and> (map_of t ''valence'' = None
               \<longrightarrow> fuse t f (p, q) = fuse ((''valence'', PFloat 0.5) # t) f (p, q))
         \<and> (map_of t ''motivation_score'' = None
               \<longrightarrow> fuse t f (p, q) = fuse ((''motivation_score'', PFloat 0) # t) f (p, q))
         \<and> (\<forall>fa. f = Some fa \<and> map_of fa ''score'' = None
               \<longrightarrow> fuse t f (p, q) = fuse t (Some ((''score'', PFloat 0) # fa)) (p, q)
                 \<and> fuse t f (p, q) = fuse t f (9 / 10, 1 / 10))"
proof -
  obtain L where L: "fuse_steps t f (p, q) = Inr L"
    using fuse_steps_total [OF assms] by blast
  note fld = fuse_steps_fields [OF L]
  define v where "v = text_val L"
  define m where "m = text_mot L"
  define fc where "fc = face_comp L"
  define c where "c = face_conf L"
  have v: "dict_get t ''valence'' (PFloat 0.5) = PFloat v" using fld(2) by (simp add: v_def)
  have m: "dict_get t ''motivation_score'' (PFloat 0) = PFloat m" using fld(3) by (simp add: m_def)
  have f: "face_part f = Inr (fc, c)" using fld(1) by (simp add: fc_def c_def)
  have dv: "map_of t ''valence'' = None \<longrightarrow> v = 0.5"
    using v by (auto simp: dict_get_def)
  have dm: "map_of t ''motivation_score'' = None \<longrightarrow> m = 0"
    using m by (auto simp: dict_get_def)
  have dc: "\<forall>fa. f = Some fa \<and> map_of fa ''score'' = None \<longrightarrow> c = 0 \<and> fc = 0.5"
  proof (intro allI impI, elim conjE)
    fix fa
    assume h: "f = Some fa" "map_of fa ''score'' = None"
    have sc: "dict_get fa ''score'' (PFloat 0) = PFloat 0"
      using h(2) by (simp add: dict_get_def)
    obtain s where s: "dict_get fa ''dominant_emotion'' (PStr ''neutral'') = PStr s"
      using assms(2) h(1) is_strE by (auto simp: face_typed_def)
    show "c = 0 \<and> fc = 0.5"
    proof (cases "fa = [] \<or> dict_get fa ''dominant_emotion'' PNone = PStr ''no_face_detected''")
      case True
      then show ?thesis using face_part_absent [OF True] f h(1) by simp
    next
      case False
      then have "fa \<noteq> []" "dict_get fa ''dominant_emotion'' PNone \<noteq> PStr ''no_face_detected''"
        by simp_all
      from face_part_present [OF this s sc] show ?thesis using f h(1) by simp
    qed
  qed
  note e = fuse_explicit [OF v m f, of p q]
  have rv: "map_of t ''valence'' = None
               \<longrightarrow> fuse t f (p, q) = fuse ((''valence'', PFloat 0.5) # t) f (p, q)"
  proof
    assume "map_of t ''valence'' = None"
    then show "fuse t f (p, q) = fuse ((''valence'', PFloat 0.5) # t) f (p, q)"
      by (intro fuse_reads_two_keys) (simp_all add: dict_get_def)
  qed
  have rm: "map_of t ''motivation_score'' = None
               \<longrightarrow> fuse t f (p, q) = fuse ((''motivation_score'', PFloat 0) # t) f (p, q)"
  proof
    assume "map_of t ''motivation_score'' = None"
    then show "fuse t f (p, q) = fuse ((''motivation_score'', PFloat 0) # t) f (p, q)"
      by (intro fuse_reads_two_keys) (simp_all add: dict_get_def)
  qed
  have rc: "\<forall>fa. f = Some fa \<and> map_of fa ''score'' = None
               \<longrightarrow> fuse t f (p, q) = fuse t (Some ((''score'', PFloat 0) # fa)) (p, q)
                 \<and> fuse t f (p, q) = fuse t f (9 / 10, 1 / 10)"
  proof (intro allI impI, elim conjE)
    fix fa
    assume h: "f = Some fa" "map_of fa ''score'' = None"
    have fp: "face_part (Some ((''score'', PFloat 0) # fa)) = face_part f"
      using face_part_score_default [OF h(2)] h(1) by simp
    have a: "fuse t f (p, q) = fuse t (Some ((''score'', PFloat 0) # fa)) (p, q)"
      by (rule fuse_reads_face_part [OF fp, symmetric])
    have "face_conf L = 0" using dc h by (simp add: c_def)
    then have b: "fuse t f (p, q) = fuse t f (9 / 10, 1 / 10)"
      using fuse_forced_weights [OF L] by simp
    from a b show "fuse t f (p, q) = fuse t (Some ((''score'', PFloat 0) # fa)) (p, q)
                 \<and> fuse t f (p, q) = fuse t f (9 / 10, 1 / 10)" by (rule conjI)
  qed
  show ?thesis
    apply (rule exI [of _ v], rule exI [of _ m], rule exI [of _ fc], rule exI [of _ c])
    using v m f dv dm dc e rv rm rc by (intro conjI)
qed

theorem fuse_missing_keys_witness:
  "text_typed [] \<and> face_typed (Some [(''dominant_emotion'', PStr ''happy'')])
   \<and> fuse [] (Some [(''dominant_emotion'', PStr ''happy'')]) (0.6, 0.4)
       = Inr [(''mood_score'', PFloat 0.41), (''category'', PStr ''medium''),
              (''components'', PDict [(''text_comp'', PFloat 0.4), (''face_comp'', PFloat 0.5),
                 (''text_valence'', PFloat 0.5), (''motivation_score'', PFloat 0)])]"
proof -
  let ?f = "Some [(''dominant_emotion'', PStr ''happy'')]"
  have t: "text_typed []"
    by (simp add: text_typed_def is_float_def dict_get_def)
  have f: "face_typed ?f"
    by (simp add: face_typed_def is_float_def is_str_def dict_get_def)
  have "fuse [] ?f (0.6, 0.4)
       = Inr [(''mood_score'', PFloat 0.41), (''category'', PStr ''medium''),
              (''components'', PDict [(''text_comp'', PFloat 0.4), (''face_comp'', PFloat 0.5),
                 (''text_valence'', PFloat 0.5), (''motivation_score'', PFloat 0)])]"
    using fuse_missing_keys [OF t f, of "0.6" "0.4"]
  proof (elim exE conjE)
    fix v m fc c :: real
    assume v: "map_of [] ''valence'' = None \<longrightarrow> v = 0.5"
      and m: "map_of [] ''motivation_score'' = None \<longrightarrow> m = 0"
      and c: "\<forall>fa. ?f = Some fa \<and> map_of fa ''score'' = None \<longrightarrow> c = 0 \<and> fc = 0.5"
      and e: "fuse [] ?f (0.6, 0.4) =
               Inr [(''mood_score'',
                       PFloat ((if c < 0.1 then 0.9 else 0.6) * (0.8 * v + 0.2 * m)
                               + (if c < 0.1 then 0.1 else 0.4) * fc)),
                    (''category'',
                       PStr (bucket ((if c < 0.1 then 0.9 else 0.6) * (0.8 * v + 0.2 * m)
                                     + (if c < 0.1 then 0.1 else 0.4) * fc))),
                    (''components'',
                       PDict [(''text_comp'', PFloat (0.8 * v + 0.2 * m)),
                              (''face_comp'', PFloat fc),
                              (''text_valence'', PFloat v),
                              (''motivation_score'', PFloat m)])]"
    have "v = 0.5" "m = 0" using v m by simp_all
    moreover have "c = 0 \<and> fc = 0.5" using c by simp
    ultimately show ?thesis using e by (simp add: bucket_def)
  qed
  with t f show ?thesis by (intro conjI)
qed

section \<open>The worked examples in double precision\<close>

lemmas fuse_double_eval = fuse_double_def fuse_steps_double_def face_part_double_def
  map_face_emotion_score_double_def bucket_double_def fusion_result_def dict_get_def
  EMOTION_TO_SCORE_def

lemma fuse_double_A:
  "fuse_double [(''valence'', PFloat 0.8), (''motivation_score'', PFloat 0.3)]
        (Some [(''dominant_emotion'', PStr ''happy''), (''score'', PFloat 0.8)]) (0.6, 0.4)
     = Inr [(''mood_score'', PFloat (6737385042546264 / 2 ^ 53)), (''category'', PStr ''high''),
            (''components'', PDict [(''text_comp'', PFloat (6305039478318696 / 2 ^ 53)),
               (''face_comp'', PFloat (7385903388887614 / 2 ^ 53)),
               (''text_valence'', PFloat (7205759403792794 / 2 ^ 53)),
               (''motivation_score'', PFloat (5404319552844595 / 2 ^ 54))])]"
  by (simp add: fuse_double_eval double_eval)

lemma fuse_double_B:
  "fuse_double [(''valence'', PFloat 0.5), (''motivation_score'', PFloat 0.0)] None (0.6, 0.4)
     = Inr [(''mood_score'', PFloat (3692951694443807 / 2 ^ 53)), (''category'', PStr ''medium''),
            (''components'', PDict [(''text_comp'', PFloat (3602879701896397 / 2 ^ 53)),
               (''face_comp'', PFloat (1 / 2)),
               (''text_valence'', PFloat (1 / 2)),
               (''motivation_score'', PFloat 0)])]"
  by (simp add: fuse_double_eval double_eval)

lemma fuse_double_C:
  "fuse_double [(''valence'', PFloat 0.1), (''motivation_score'', PFloat 0.0)]
        (Some [(''dominant_emotion'', PStr ''sad''), (''score'', PFloat 0.9)]) (0.6, 0.4)
     = Inr [(''mood_score'', PFloat (1261007895663739 / 2 ^ 53)), (''category'', PStr ''low''),
            (''components'', PDict [(''text_comp'', PFloat (1441151880758559 / 2 ^ 54)),
               (''face_comp'', PFloat (8286623314361713 / 2 ^ 55)),
               (''text_valence'', PFloat (7205759403792794 / 2 ^ 56)),
               (''motivation_score'', PFloat 0)])]"
  by (simp add: fuse_double_eval double_eval)

lemma round_double_decimals:
  "round_double 0.748 = 6737385042546262 / 2 ^ 53"
  "round_double 0.41 = 7385903388887613 / 2 ^ 54"
  "round_double 0.14 = 1261007895663739 / 2 ^ 53"
  by (simp_all add: double_eval)

text \<open>
  C7 asks that the three worked examples are reproduced exactly. In double precision
  example A gives the mood score 0.7480000000000002, which is neither the decimal 0.748
  nor the double nearest to it.
\<close>

theorem fuse_double_example_A_differs:
  "fuse_double [(''valence'', PFloat 0.8), (''motivation_score'', PFloat 0.3)]
        (Some [(''dominant_emotion'', PStr ''happy''), (''score'', PFloat 0.8)]) (0.6, 0.4)
     = Inr [(''mood_score'', PFloat (6737385042546264 / 2 ^ 53)), (''category'', PStr ''high''),
            (''components'', PDict [(''text_comp'', PFloat (6305039478318696 / 2 ^ 53)),
               (''face_comp'', PFloat (7385903388887614 / 2 ^ 53)),
               (''text_valence'', PFloat (7205759403792794 / 2 ^ 53)),
               (''motivation_score'', PFloat (5404319552844595 / 2 ^ 54))])]
   \<and> (6737385042546264 / 2 ^ 53 :: real) \<noteq> round_double 0.748
   \<and> (6737385042546264 / 2 ^ 53 :: real) \<noteq> 0.748"
proof -
  have "(6737385042546264 / 2 ^ 53 :: real) \<noteq> round_double 0.748"
    unfolding round_double_decimals by simp
  moreover have "(6737385042546264 / 2 ^ 53 :: real) \<noteq> 0.748"
    by simp
  ultimately show ?thesis using fuse_double_A by (intro conjI)
qed

text \<open>
  C7, as amended. In double precision \<open>fuse\<close> reproduces the categories of the three worked
  examples and their mood scores up to rounding: (A) valence 0.8, motivation 0.3, happy face
  at confidence 0.8 give "high" and the double two units in the last place above 0.748
  (0.7480000000000002); (B) valence 0.5, motivation 0, no face give "medium" and the double
  one unit in the last place above 0.41 (0.41000000000000003); (C) valence 0.1, motivation
  0, sad face at confidence 0.9 give "low" and the double 0.14. Each score is within
  \<open>10\<^sup>-\<^sup>1\<^sup>5\<close> of the worked value.
\<close>

theorem fuse_double_worked_examples:
  "fuse_double [(''valence'', PFloat 0.8), (''motivation_score'', PFloat 0.3)]
        (Some [(''dominant_emotion'', PStr ''happy''), (''score'', PFloat 0.8)]) (0.6, 0.4)
     = Inr [(''mood_score'', PFloat (round_double 0.748 + 2 / 2 ^ 53)),
            (''category'', PStr ''high''),
            (''components'', PDict [(''text_comp'', PFloat (6305039478318696 / 2 ^ 53)),
               (''face_comp'', PFloat (7385903388887614 / 2 ^ 53)),
               (''text_valence'', PFloat (7205759403792794 / 2 ^ 53)),
               (''motivation_score'', PFloat (5404319552844595 / 2 ^ 54))])]
   \<and> fuse_double [(''valence'', PFloat 0.5), (''motivation_score'', PFloat 0.0)] None (0.6, 0.4)
     = Inr [(''mood_score'', PFloat (round_double 0.41 + 1 / 2 ^ 54)),
            (''category'', PStr ''medium''),
            (''components'', PDict [(''text_comp'', PFloat (3602879701896397 / 2 ^ 53)),
               (''face_comp'', PFloat (1 / 2)),
               (''text_valence'', PFloat (1 / 2)),
               (''motivation_score'', PFloat 0)])]
   \<and> fuse_double [(''valence'', PFloat 0.1), (''motivation_score'', PFloat 0.0)]
        (Some [(''dominant_emotion'', PStr ''sad''), (''score'', PFloat 0.9)]) (0.6, 0.4)
     = Inr [(''mood_score'', PFloat (round_double 0.14)),
            (''category'', PStr ''low''),
            (''components'', PDict [(''text_comp'', PFloat (1441151880758559 / 2 ^ 54)),
               (''face_comp'', PFloat (8286623314361713 / 2 ^ 55)),
               (''text_valence'', PFloat (7205759403792794 / 2 ^ 56)),
               (''motivation_score'', PFloat 0)])]
   \<and> \<bar>round_double 0.748 + 2 / 2 ^ 53 - 0.748\<bar> < 1 / 10 ^ 15
   \<and> \<bar>round_double 0.41 + 1 / 2 ^ 54 - 0.41\<bar> < 1 / 10 ^ 15
   \<and> \<bar>round_double 0.14 - 0.14\<bar> < 1 / 10 ^ 15"
proof -
  have a: "round_double 0.748 + 2 / 2 ^ 53 = 6737385042546264 / 2 ^ 53"
    unfolding round_double_decimals by simp
  have b: "round_double 0.41 + 1 / 2 ^ 54 = 3692951694443807 / 2 ^ 53"
    unfolding round_double_decimals by simp
  have c: "round_double 0.14 = 1261007895663739 / 2 ^ 53"
    by (rule round_double_decimals)
  have da: "\<bar>round_double 0.748 + 2 / 2 ^ 53 - 0.748\<bar> < 1 / 10 ^ 15"
    unfolding a by simp
  have db: "\<bar>round_double 0.41 + 1 / 2 ^ 54 - 0.41\<bar> < 1 / 10 ^ 15"
    unfolding b by simp
  have dc: "\<bar>round_double 0.14 - 0.14\<bar> < 1 / 10 ^ 15"
    unfolding c by simp
  show ?thesis
    unfolding a b c using fuse_double_A fuse_double_B fuse_double_C da db dc
    unfolding a b c by (intro conjI)
qed

section \<open>Properties of the text feature extractor\<close>

text \<open>
  C6. When the sentiment classifier returns a label and a confidence in \<open>[0,1]\<close>,
  \<open>analyze_text\<close> returns valence = confidence for the label POSITIVE and
  1 - confidence otherwise, and motivation score
  \<open>min(1.0, 0.2 * (number of matched keywords) + (0.3 if POSITIVE else 0))\<close>; both lie in
  \<open>[0,1]\<close>. This holds for every table of word characters and every lower-casing.
\<close>

theorem analyze_text_features:
  assumes "pipe (str_prefix 512 text_in) = Inr (label, conf)"
    and "0 \<le> conf" and "conf \<le> 1"
  shows "\<exists>found v m.
           analyze_text lower is_word pipe text_in =
             Inr [(''label'', PStr label), (''score'', PFloat conf), (''valence'', PFloat v),
                  (''motivation_score'', PFloat m), (''keywords'', PList (map PStr found))]
           \<and> found = filter (\<lambda>kw. re_search_word is_word kw (lower text_in)) motivation_keywords
           \<and> v = (if label = ''POSITIVE'' then conf else 1 - conf)
           \<and> m = min 1 (0.2 * real (length found) + (if label = ''POSITIVE'' then 0.3 else 0))
           \<and> 0 \<le> v \<and> v \<le> 1 \<and> 0 \<le> m \<and> m \<le> 1"
proof -
  define found where "found = filter (\<lambda>kw. re_search_word is_word kw (lower text_in)) motivation_keywords"
  define v where "v = (if label = ''POSITIVE'' then conf else 1 - conf)"
  define m where "m = min 1 (0.2 * real (length found) + (if label = ''POSITIVE'' then 0.3 else 0))"
  have r: "analyze_text lower is_word pipe text_in =
             Inr [(''label'', PStr label), (''score'', PFloat conf), (''valence'', PFloat v),
                  (''motivation_score'', PFloat m), (''keywords'', PList (map PStr found))]"
    using assms(1) by (simp add: analyze_text_def Let_def found_def v_def m_def)
  have v: "0 \<le> v" "v \<le> 1" using assms(2,3) by (simp_all add: v_def)
  have m: "0 \<le> m" "m \<le> 1" by (simp_all add: m_def)
  from r v m show ?thesis using found_def v_def m_def by blast
qed

theorem analyze_text_features_witness:
  "(\<lambda>s. Inr (''POSITIVE'', 0.9)) (str_prefix 512 ''I plan to Study and exercise today'')
     = (Inr (''POSITIVE'', 0.9) :: py_error + string \<times> real)
   \<and> (0 :: real) \<le> 0.9 \<and> (0.9 :: real) \<le> 1
   \<and> analyze_text ascii_lower ascii_word (\<lambda>s. Inr (''POSITIVE'', 0.9))
         ''I plan to Study and exercise today''
       = Inr [(''label'', PStr ''POSITIVE''), (''score'', PFloat 0.9), (''valence'', PFloat 0.9),
              (''motivation_score'', PFloat 0.9),
              (''keywords'', PList [PStr ''plan'', PStr ''exercise'', PStr ''study''])]"
proof -
  have k: "filter (\<lambda>kw. re_search_word ascii_word kw (ascii_lower ''I plan to Study and exercise today''))
             motivation_keywords = [''plan'', ''exercise'', ''study'']"
    by code_simp
  have h: "(\<lambda>s. Inr (''POSITIVE'', 0.9)) (str_prefix 512 ''I plan to Study and exercise today'')
     = (Inr (''POSITIVE'', 0.9) :: py_error + string \<times> real)"
    by simp
  have "analyze_text ascii_lower ascii_word (\<lambda>s. Inr (''POSITIVE'', 0.9))
         ''I plan to Study and exercise today''
       = Inr [(''label'', PStr ''POSITIVE''), (''score'', PFloat 0.9), (''valence'', PFloat 0.9),
              (''motivation_score'', PFloat 0.9),
              (''keywords'', PList [PStr ''plan'', PStr ''exercise'', PStr ''study''])]"
    using analyze_text_features [of "\<lambda>s. Inr (''POSITIVE'', 0.9)" "''I plan to Study and exercise today''"
        "''POSITIVE''" "0.9" ascii_lower ascii_word, OF h]
    unfolding k by auto
  then show ?thesis by simp
qed

section \<open>Properties of the storage\<close>

lemma save_entry_try_cases:
  "save_entry_try fos E db text_in fb fusion tr fr =
     (case py_float fos (dict_get fusion ''mood_score'' (PFloat 0)) of
        Inl e \<Rightarrow> (Inl e, db)
      | Inr ms \<Rightarrow>
          if commit_succeeds E
          then (print_message E,
                db @ [\<lparr>id_col = next_id db, timestamp = clock E, text_col = text_in,
                        text_emotion = json_dumps (PDict tr),
                        face_emotion = json_dumps (face_json fr),
                        mood_score = ms,
                        feedback = dict_get fb ''message'' (PStr '''')\<rparr>])
          else (Inl OperationalError, db))"
  by (simp add: save_entry_try_def new_entry_def split: sum.splits)

lemma save_entry_table:
  "snd (save_entry fos E db text_in fb fusion tr fr) =
     (if session_opens E then snd (save_entry_try fos E db text_in fb fusion tr fr) else db)"
  by (simp add: save_entry_def Let_def split: prod.splits)

lemma save_entry_returns:
  assumes "session_opens E" and "stdout_encodes E" and "rollback_succeeds E"
    and "close_succeeds E"
  shows "fst (save_entry fos E db text_in fb fusion tr fr) = Inr ()"
    and "fst (save_entry_try fos E db text_in fb fusion tr fr) = Inl err
         \<Longrightarrow> snd (save_entry fos E db text_in fb fusion tr fr) = db"
  using assms
  by (auto simp: save_entry_def save_entry_except_def print_message_def save_entry_try_cases
      Let_def split: prod.splits sum.splits if_splits)

text \<open>
  C9 asks that \<open>save_entry\<close> never raises to its caller and leaves the stored log unchanged
  on error. The handler itself begins with a \<^verbatim>\<open>print\<close>: when standard output cannot encode
  the messages, every call of \<open>save_entry\<close> ends with \<open>UnicodeEncodeError\<close> raised to the
  caller, and when the commit went through the row is in the table all the same.
\<close>

theorem save_entry_raises_to_caller:
  assumes "session_opens E" and "\<not> stdout_encodes E" and "close_succeeds E"
  shows "fst (save_entry fos E db text_in fb fusion tr fr) = Inl UnicodeEncodeError
       \<and> (\<forall>en. commit_succeeds E
               \<and> new_entry fos (clock E) db text_in fb fusion tr fr = Inr en
             \<longrightarrow> snd (save_entry fos E db text_in fb fusion tr fr) = db @ [en])"
proof -
  have h: "save_entry_except E = Inl UnicodeEncodeError"
    using assms(2) by (simp add: save_entry_except_def print_message_def)
  have t: "fst (save_entry_try fos E db text_in fb fusion tr fr) \<noteq> Inr ()"
    using assms(2)
    by (simp add: save_entry_try_def print_message_def split: sum.splits)
  have "fst (save_entry fos E db text_in fb fusion tr fr) = Inl UnicodeEncodeError"
    using assms(1,3) h t
    by (auto simp: save_entry_def Let_def split: prod.splits sum.splits)
  moreover have "snd (save_entry fos E db text_in fb fusion tr fr) = db @ [en]"
    if "commit_succeeds E" "new_entry fos (clock E) db text_in fb fusion tr fr = Inr en" for en
    using that assms(1) by (simp add: save_entry_table save_entry_try_def)
  ultimately show ?thesis by blast
qed

theorem save_entry_raises_to_caller_witness:
  "session_opens \<lparr>clock = 1700000000, session_opens = True, commit_succeeds = True,
       stdout_encodes = False, rollback_succeeds = True, close_succeeds = True\<rparr>
   \<and> \<not> stdout_encodes \<lparr>clock = 1700000000, session_opens = True, commit_succeeds = True,
       stdout_encodes = False, rollback_succeeds = True, close_succeeds = True\<rparr>
   \<and> close_succeeds \<lparr>clock = 1700000000, session_opens = True, commit_succeeds = True,
       stdout_encodes = False, rollback_succeeds = True, close_succeeds = True\<rparr>
   \<and> save_entry (\<lambda>s. None)
       \<lparr>clock = 1700000000, session_opens = True, commit_succeeds = True,
         stdout_encodes = False, rollback_succeeds = True, close_succeeds = True\<rparr>
       [] ''I feel okay'' [(''feedback'', PStr ''ok''), (''rationale'', PStr ''(41%)'')]
       [(''mood_score'', PFloat 0.41), (''category'', PStr ''medium'')]
       [(''valence'', PFloat 0.5)] None
     = (Inl UnicodeEncodeError,
        [\<lparr>id_col = 1, timestamp = 1700000000, text_col = ''I feel okay'',
           text_emotion = JsonText (PDict [(''valence'', PFloat 0.5)]),
           face_emotion = JsonText PNone, mood_score = 0.41, feedback = PStr []\<rparr>])"
proof -
  let ?E = "\<lparr>clock = 1700000000, session_opens = True, commit_succeeds = True,
       stdout_encodes = False, rollback_succeeds = True, close_succeeds = True\<rparr>"
  let ?en = "\<lparr>id_col = 1, timestamp = 1700000000, text_col = ''I feel okay'',
           text_emotion = JsonText (PDict [(''valence'', PFloat 0.5)]),
           face_emotion = JsonText PNone, mood_score = 0.41, feedback = PStr []\<rparr>"
  have a: "session_opens ?E" and b: "\<not> stdout_encodes ?E" and c: "close_succeeds ?E"
    by simp_all
  have n: "new_entry (\<lambda>s. None) (clock ?E) [] ''I feel okay''
       [(''feedback'', PStr ''ok''), (''rationale'', PStr ''(41%)'')]
       [(''mood_score'', PFloat 0.41), (''category'', PStr ''medium'')]
       [(''valence'', PFloat 0.5)] None = Inr ?en"
    by (simp add: new_entry_def dict_get_def next_id_def json_dumps_def face_json_def)
  note r = save_entry_raises_to_caller [OF a b c, of "\<lambda>s. None" "[]" "''I feel okay''"
       "[(''feedback'', PStr ''ok''), (''rationale'', PStr ''(41%)'')]"
       "[(''mood_score'', PFloat 0.41), (''category'', PStr ''medium'')]"
       "[(''valence'', PFloat 0.5)]" None]
  from r have f: "fst (save_entry (\<lambda>s. None) ?E [] ''I feel okay''
       [(''feedback'', PStr ''ok''), (''rationale'', PStr ''(41%)'')]
       [(''mood_score'', PFloat 0.41), (''category'', PStr ''medium'')]
       [(''valence'', PFloat 0.5)] None) = Inl UnicodeEncodeError"
    by (rule conjunct1)
  from r n have s: "snd (save_entry (\<lambda>s. None) ?E [] ''I feel okay''
       [(''feedback'', PStr ''ok''), (''rationale'', PStr ''(41%)'')]
       [(''mood_score'', PFloat 0.41), (''category'', PStr ''medium'')]
       [(''valence'', PFloat 0.5)] None) = [] @ [?en]"
    by simp
  from f s have "save_entry (\<lambda>s. None) ?E [] ''I feel okay''
       [(''feedback'', PStr ''ok''), (''rationale'', PStr ''(41%)'')]
       [(''mood_score'', PFloat 0.41), (''category'', PStr ''medium'')]
       [(''valence'', PFloat 0.5)] None = (Inl UnicodeEncodeError, [?en])"
    by (simp add: prod_eq_iff)
  with a b c show ?thesis by (intro conjI)
qed

section \<open>The feedback that is stored\<close>

lemma format_template_nonempty:
  "t \<noteq> [] \<Longrightarrow> hd t \<noteq> CHR ''{'' \<Longrightarrow> format_template t micro \<noteq> []"
  by (cases t) simp_all

lemma templates_heads:
  "t \<in> set (concat (map snd TEMPLATES)) \<Longrightarrow> t \<noteq> [] \<and> hd t \<noteq> CHR ''{''"
  by (auto simp: TEMPLATES_def)

lemma templates_medium_subset: "set templates_medium \<subseteq> set (concat (map snd TEMPLATES))"
  by (simp add: templates_medium_def TEMPLATES_def)

lemma map_of_TEMPLATES_subset:
  "map_of TEMPLATES s = Some ts \<Longrightarrow> set ts \<subseteq> set (concat (map snd TEMPLATES))"
  by (auto dest!: map_of_SomeD)

lemma templates_for_subset:
  assumes "templates_for v = Inr ts"
  shows "set ts \<subseteq> set (concat (map snd TEMPLATES))"
proof (cases v)
  case (PStr s)
  with assms show ?thesis
    using templates_medium_subset map_of_TEMPLATES_subset [of s]
    by (auto split: option.splits)
qed (use assms templates_medium_subset in auto)

lemma choice_mem: "choice xs n = Inr x \<Longrightarrow> x \<in> set xs"
  by (auto simp: choice_def split: if_splits)

lemma generate_feedback_result:
  assumes "generate_feedback str_of int_of_str rnd fusion text_analysis face_analysis name = Inr fb"
  shows "\<exists>msg rat. fb = [(''feedback'', PStr msg), (''rationale'', PStr rat)] \<and> msg \<noteq> []"
proof -
  from assms obtain ts template micro pct
    where ts: "templates_for (dict_get fusion ''category'' (PStr ''medium'')) = Inr ts"
      and tp: "choice ts (draw_template rnd) = Inr template"
      and fb: "fb = [(''feedback'', PStr (format_template template micro)),
                     (''rationale'', PStr (rationale_text str_of pct face_analysis))]"
    by (auto simp: generate_feedback_def Let_def split: sum.splits option.splits)
  have "template \<in> set (concat (map snd TEMPLATES))"
    using templates_for_subset [OF ts] choice_mem [OF tp] by blast
  then have "format_template template micro \<noteq> []"
    using templates_heads format_template_nonempty by blast
  with fb show ?thesis by blast
qed

text \<open>
  C2 asks that the stored feedback is the message that \<open>generate_feedback\<close> produced. The
  generator returns the keys \<open>feedback\<close> and \<open>rationale\<close>, with a non-empty message, while
  \<open>save_entry\<close> reads the key \<open>message\<close>: whenever a row is written for a generated feedback,
  its feedback column is the empty string, and \<open>load_entries\<close> returns that row.
\<close>

theorem stored_feedback_is_empty:
  assumes "generate_feedback str_of int_of_str rnd fusion text_analysis face_analysis name = Inr fb"
    and "save_entry fos E db text_in fb fusion' tr fr = (out, db')"
    and "db' \<noteq> db"
  shows "\<exists>msg rat e.
           fb = [(''feedback'', PStr msg), (''rationale'', PStr rat)] \<and> msg \<noteq> []
           \<and> db' = db @ [e] \<and> e \<in> set (load_entries db')
           \<and> feedback e = PStr [] \<and> feedback e \<noteq> PStr msg"
proof -
  obtain msg rat where fb: "fb = [(''feedback'', PStr msg), (''rationale'', PStr rat)]" "msg \<noteq> []"
    using generate_feedback_result [OF assms(1)] by blast
  define e where "e = \<lparr>id_col = next_id db, timestamp = clock E, text_col = text_in,
                          text_emotion = json_dumps (PDict tr),
                          face_emotion = json_dumps (face_json fr),
                          mood_score = (case py_float fos (dict_get fusion' ''mood_score'' (PFloat 0)) of Inr ms \<Rightarrow> ms | Inl x \<Rightarrow> 0),
                          feedback = dict_get fb ''message'' (PStr '''')\<rparr>"
  have "snd (save_entry fos E db text_in fb fusion' tr fr) = db'"
    using assms(2) by simp
  then have db': "db' = db @ [e]"
    using assms(3) unfolding save_entry_table save_entry_try_cases e_def
    by (auto split: sum.splits if_splits)
  have f: "feedback e = PStr []"
    by (simp add: e_def fb(1) dict_get_def)
  have "e \<in> set (load_entries db')"
    by (simp add: load_entries_def db')
  with fb db' f show ?thesis by auto
qed

lemma load_entries_length: "length (load_entries db) = length db"
  by (simp add: load_entries_def)

lemma load_entries_set: "set (load_entries db) = set db"
  by (simp add: load_entries_def)

lemma load_entries_descending:
  "sorted (map (\<lambda>e. - timestamp e) (load_entries db))"
  by (simp add: load_entries_def)

lemma percent_41: "percent int_of_str (PFloat (41 / 100)) = Inr 41"
  by (simp add: double_eval)

lemma str_int_41: "str_int 41 = ''41''"
  by code_simp

lemma generate_feedback_example: "generate_feedback (\<lambda>v. []) (\<lambda>s. None)
       \<lparr>draw_template = 1, draw_micro = 0, draw_uniform = 0.5\<rparr>
       [(''mood_score'', PFloat 0.41), (''category'', PStr ''medium'')]
       [(''valence'', PFloat 0.5), (''motivation_score'', PFloat 0), (''keywords'', PList [])]
       None None
     = Inr [(''feedback'', PStr (''Nice awareness '' @ mdash @ '' try a 10-minute walk today to stay consistent.'')),
            (''rationale'', PStr ''(41% mood score based on your words)'')]"
  by (simp add: generate_feedback_def dict_get_def TEMPLATES_def MICRO_ACTIONS_def choice_def
      pick_micro_action_def rationale_text_def str_int_41 percent_41 mdash_def Let_def
      del: percent.simps)

lemma save_entry_example: "save_entry (\<lambda>s. None)
       \<lparr>clock = 1700000000, session_opens = True, commit_succeeds = True,
         stdout_encodes = True, rollback_succeeds = True, close_succeeds = True\<rparr>
       [] ''I feel okay''
       [(''feedback'', PStr (''Nice awareness '' @ mdash @ '' try a 10-minute walk today to stay consistent.'')),
            (''rationale'', PStr ''(41% mood score based on your words)'')]
       [(''mood_score'', PFloat 0.41), (''category'', PStr ''medium'')]
       [(''valence'', PFloat 0.5), (''motivation_score'', PFloat 0), (''keywords'', PList [])]
       None
     = (Inr (),
        [\<lparr>id_col = 1, timestamp = 1700000000, text_col = ''I feel okay'',
              text_emotion = JsonText (PDict [(''valence'', PFloat 0.5), (''motivation_score'', PFloat 0), (''keywords'', PList [])]),
              face_emotion = JsonText PNone, mood_score = 0.41, feedback = PStr []\<rparr>])"
  by (simp add: save_entry_def save_entry_try_cases print_message_def dict_get_def next_id_def
      json_dumps_def face_json_def)

theorem stored_feedback_is_empty_witness:
  "generate_feedback (\<lambda>v. []) (\<lambda>s. None)
       \<lparr>draw_template = 1, draw_micro = 0, draw_uniform = 0.5\<rparr>
       [(''mood_score'', PFloat 0.41), (''category'', PStr ''medium'')]
       [(''valence'', PFloat 0.5), (''motivation_score'', PFloat 0), (''keywords'', PList [])]
       None None
     = Inr [(''feedback'', PStr (''Nice awareness '' @ mdash @ '' try a 10-minute walk today to stay consistent.'')),
            (''rationale'', PStr ''(41% mood score based on your words)'')]
   \<and> save_entry (\<lambda>s. None)
       \<lparr>clock = 1700000000, session_opens = True, commit_succeeds = True,
         stdout_encodes = True, rollback_succeeds = True, close_succeeds = True\<rparr>
       [] ''I feel okay''
       [(''feedback'', PStr (''Nice awareness '' @ mdash @ '' try a 10-minute walk today to stay consistent.'')),
            (''rationale'', PStr ''(41% mood score based on your words)'')]
       [(''mood_score'', PFloat 0.41), (''category'', PStr ''medium'')]
       [(''valence'', PFloat 0.5), (''motivation_score'', PFloat 0), (''keywords'', PList [])]
       None
     = (Inr (),
        [\<lparr>id_col = 1, timestamp = 1700000000, text_col = ''I feel okay'',
              text_emotion = JsonText (PDict [(''valence'', PFloat 0.5), (''motivation_score'', PFloat 0), (''keywords'', PList [])]),
              face_emotion = JsonText PNone, mood_score = 0.41, feedback = PStr []\<rparr>])
   \<and> (\<exists>msg rat e.
           [(''feedback'', PStr (''Nice awareness '' @ mdash @ '' try a 10-minute walk today to stay consistent.'')),
            (''rationale'', PStr ''(41% mood score based on your words)'')]
             = [(''feedback'', PStr msg), (''rationale'', PStr rat)] \<and> msg \<noteq> []
           \<and> [\<lparr>id_col = 1, timestamp = 1700000000, text_col = ''I feel okay'',
              text_emotion = JsonText (PDict [(''valence'', PFloat 0.5), (''motivation_score'', PFloat 0), (''keywords'', PList [])]),
              face_emotion = JsonText PNone, mood_score = 0.41, feedback = PStr []\<rparr>] = [] @ [e]
           \<and> e \<in> set (load_entries [\<lparr>id_col = 1, timestamp = 1700000000, text_col = ''I feel okay'',
              text_emotion = JsonText (PDict [(''valence'', PFloat 0.5), (''motivation_score'', PFloat 0), (''keywords'', PList [])]),
              face_emotion = JsonText PNone, mood_score = 0.41, feedback = PStr []\<rparr>])
           \<and> feedback e = PStr [] \<and> feedback e \<noteq> PStr msg)"
proof -
  note g = generate_feedback_example
  note s = save_entry_example
  have ne: "[\<lparr>id_col = 1, timestamp = 1700000000, text_col = ''I feel okay'',
              text_emotion = JsonText (PDict [(''valence'', PFloat 0.5), (''motivation_score'', PFloat 0), (''keywords'', PList [])]),
              face_emotion = JsonText PNone, mood_score = 0.41, feedback = PStr []\<rparr>] \<noteq> []"
    by simp
  from g s stored_feedback_is_empty [OF g s ne] show ?thesis by (intro conjI)
qed

end
